theory Spec2Isabelle
  imports Main "HOL-Library.Word" "HOL-Library.Sublist"
begin

section \<open>JavaScript values\<close>

text \<open>
  A JavaScript string is a sequence of 16-bit code units. String literals of the source
  are ASCII and are written \<open>js ''...''\<close>; characters that cannot be written inside
  a literal (quotes, backslash, line feed) are given by their code unit.
\<close>

type_synonym jsstring = "16 word list"

definition js :: "string \<Rightarrow> jsstring" where
  "js s = map of_char s"

text \<open>
  The values that flow through the server are JSON data plus \<open>undefined\<close>. Numbers are
  the integers that JavaScript prints in plain decimal notation; fractions, NaN and
  exponent notation are outside the model. The pairs of \<open>JObj\<close> are the own enumerable
  properties of a plain object, in enumeration order. Reading a property looks at own
  properties only: members inherited from the built-in prototypes are outside the model.
\<close>

datatype json =
    JUndefined
  | JNull
  | JBool bool
  | JNum int
  | JStr jsstring
  | JArr "json list"
  | JObj "(jsstring \<times> json) list"

subsection \<open>Number and string conversion\<close>

definition digit :: "nat \<Rightarrow> 16 word" where
  "digit d = of_nat (48 + d)"

fun nat_str :: "nat \<Rightarrow> jsstring" where
  "nat_str n = (if n < 10 then [digit n] else nat_str (n div 10) @ [digit (n mod 10)])"

declare nat_str.simps [simp del]

definition int_str :: "int \<Rightarrow> jsstring" where
  "int_str i = (if i < 0 then js ''-'' @ nat_str (nat (- i)) else nat_str (nat i))"

text \<open>\<open>Array.prototype.join\<close> on an array of strings.\<close>

fun join :: "jsstring \<Rightarrow> jsstring list \<Rightarrow> jsstring" where
  "join sep [] = []"
| "join sep [x] = x"
| "join sep (x # y # xs) = x @ sep @ join sep (y # xs)"

text \<open>
  \<open>String(value)\<close>: an array is joined with commas, its \<open>null\<close> and \<open>undefined\<close>
  elements giving the empty string; a plain object gives \<open>[object Object]\<close>.
\<close>

fun String :: "json \<Rightarrow> jsstring" where
  "String JUndefined = js ''undefined''"
| "String JNull = js ''null''"
| "String (JBool b) = (if b then js ''true'' else js ''false'')"
| "String (JNum n) = int_str n"
| "String (JStr s) = s"
| "String (JArr xs) =
     join (js '','')
       (map (\<lambda>x. if x = JUndefined \<or> x = JNull then [] else String x) xs)"
| "String (JObj kvs) = js ''[object Object]''"

text \<open>Truthiness, as tested by \<open>||\<close>, \<open>?:\<close> and \<open>if\<close>.\<close>

fun truthy :: "json \<Rightarrow> bool" where
  "truthy JUndefined = False"
| "truthy JNull = False"
| "truthy (JBool b) = b"
| "truthy (JNum n) = (n \<noteq> 0)"
| "truthy (JStr s) = (s \<noteq> [])"
| "truthy (JArr xs) = True"
| "truthy (JObj kvs) = True"

definition js_or :: "json \<Rightarrow> json \<Rightarrow> json" where
  "js_or a b = (if truthy a then a else b)"

text \<open>\<open>typeof v === 'object'\<close> holds of arrays, objects and \<open>null\<close>.\<close>

fun typeof_object :: "json \<Rightarrow> bool" where
  "typeof_object JNull = True"
| "typeof_object (JArr xs) = True"
| "typeof_object (JObj kvs) = True"
| "typeof_object v = False"

subsection \<open>Property access\<close>

text \<open>
  An array or a string has the own properties \<open>length\<close> and its indices; an index is
  written in canonical decimal form.
\<close>

definition index_of :: "jsstring \<Rightarrow> nat \<Rightarrow> nat option" where
  "index_of k n = find (\<lambda>i. nat_str i = k) [0..<n]"

text \<open>
  The own property \<open>k\<close> of a value other than \<open>null\<close> and \<open>undefined\<close>, and
  \<open>undefined\<close> when it has none.
\<close>

fun own_prop :: "json \<Rightarrow> jsstring \<Rightarrow> json" where
  "own_prop (JStr s) k =
     (if k = js ''length'' then JNum (int (length s))
      else case index_of k (length s) of
             Some i \<Rightarrow> JStr [s ! i]
           | None \<Rightarrow> JUndefined)"
| "own_prop (JArr xs) k =
     (if k = js ''length'' then JNum (int (length xs))
      else case index_of k (length xs) of
             Some i \<Rightarrow> xs ! i
           | None \<Rightarrow> JUndefined)"
| "own_prop (JObj kvs) k = (case map_of kvs k of Some v \<Rightarrow> v | None \<Rightarrow> JUndefined)"
| "own_prop v k = JUndefined"

text \<open>
  \<open>value[key]\<close> and \<open>value.key\<close>: \<open>None\<close> is the TypeError raised on \<open>null\<close> and
  \<open>undefined\<close>.
\<close>

definition get_prop :: "json \<Rightarrow> jsstring \<Rightarrow> json option" where
  "get_prop v k = (if v = JNull \<or> v = JUndefined then None else Some (own_prop v k))"

text \<open>\<open>value?.key\<close>: \<open>undefined\<close> on \<open>null\<close> and \<open>undefined\<close>.\<close>

definition get_prop_opt :: "json \<Rightarrow> jsstring \<Rightarrow> json" where
  "get_prop_opt v k = (if v = JNull \<or> v = JUndefined then JUndefined else own_prop v k)"

text \<open>\<open>Object.keys\<close> of a value whose \<open>typeof\<close> is \<open>object\<close> and that is not \<open>null\<close>.\<close>

fun Object_keys :: "json \<Rightarrow> jsstring list" where
  "Object_keys (JObj kvs) = map fst kvs"
| "Object_keys (JArr xs) = map nat_str [0..<length xs]"
| "Object_keys (JStr s) = map nat_str [0..<length s]"
| "Object_keys v = []"

subsection \<open>JSON.stringify\<close>

definition hex_digit :: "nat \<Rightarrow> 16 word" where
  "hex_digit d = (if d < 10 then of_nat (48 + d) else of_nat (87 + d))"

definition hex4 :: "nat \<Rightarrow> jsstring" where
  "hex4 n = [hex_digit (n div 4096 mod 16), hex_digit (n div 256 mod 16),
             hex_digit (n div 16 mod 16), hex_digit (n mod 16)]"

definition is_high_surrogate :: "16 word \<Rightarrow> bool" where
  "is_high_surrogate c = (0xD800 \<le> c \<and> c \<le> 0xDBFF)"

definition is_low_surrogate :: "16 word \<Rightarrow> bool" where
  "is_low_surrogate c = (0xDC00 \<le> c \<and> c \<le> 0xDFFF)"

text \<open>
  The escapes of QuoteJSONString: the two-character escapes, \<open>\uXXXX\<close> for the other
  control characters and for a surrogate that is not part of a pair.
\<close>

definition unicode_escape :: "16 word \<Rightarrow> jsstring" where
  "unicode_escape c = [0x5C, 0x75] @ hex4 (unat c)"

fun quote_units :: "jsstring \<Rightarrow> jsstring" where
  "quote_units [] = []"
| "quote_units [c] =
     (if c = 0x08 then [0x5C, 0x62]
      else if c = 0x09 then [0x5C, 0x74]
      else if c = 0x0A then [0x5C, 0x6E]
      else if c = 0x0C then [0x5C, 0x66]
      else if c = 0x0D then [0x5C, 0x72]
      else if c = 0x22 then [0x5C, 0x22]
      else if c = 0x5C then [0x5C, 0x5C]
      else if c < 0x20 \<or> is_high_surrogate c \<or> is_low_surrogate c then unicode_escape c
      else [c])"
| "quote_units (c # d # cs) =
     (if is_high_surrogate c \<and> is_low_surrogate d then c # d # quote_units cs
      else quote_units [c] @ quote_units (d # cs))"

definition quote :: "jsstring \<Rightarrow> jsstring" where
  "quote s = [0x22] @ quote_units s @ [0x22]"

text \<open>
  SerializeJSONProperty with the gap \<open>gap\<close> at the indentation \<open>ind\<close>. \<open>None\<close> is
  \<open>undefined\<close>: an object omits such a property, an array prints \<open>null\<close> for it.
\<close>

fun serialize :: "jsstring \<Rightarrow> jsstring \<Rightarrow> json \<Rightarrow> jsstring option" where
  "serialize gap ind JUndefined = None"
| "serialize gap ind JNull = Some (js ''null'')"
| "serialize gap ind (JBool b) = Some (if b then js ''true'' else js ''false'')"
| "serialize gap ind (JNum n) = Some (int_str n)"
| "serialize gap ind (JStr s) = Some (quote s)"
| "serialize gap ind (JArr xs) =
     (let partial = map (\<lambda>x. case serialize gap (ind @ gap) x of
                                None \<Rightarrow> js ''null'' | Some t \<Rightarrow> t) xs
      in Some (if partial = [] then js ''[]''
               else if gap = [] then js ''['' @ join (js '','') partial @ js '']''
               else js ''['' @ [0x0A] @ (ind @ gap)
                    @ join (js '','' @ [0x0A] @ (ind @ gap)) partial
                    @ [0x0A] @ ind @ js '']''))"
| "serialize gap ind (JObj kvs) =
     (let partial = concat (map (\<lambda>kv. case serialize gap (ind @ gap) (snd kv) of
                                None \<Rightarrow> []
                              | Some t \<Rightarrow>
                                  [quote (fst kv) @ js '':''
                                   @ (if gap = [] then [] else js '' '') @ t]) kvs)
      in Some (if partial = [] then js ''{}''
               else if gap = [] then js ''{'' @ join (js '','') partial @ js ''}''
               else js ''{'' @ [0x0A] @ (ind @ gap)
                    @ join (js '','' @ [0x0A] @ (ind @ gap)) partial
                    @ [0x0A] @ ind @ js ''}''))"

text \<open>\<open>JSON.stringify(value, null, n)\<close>; \<open>JSON.stringify(value)\<close> is the case \<open>n = 0\<close>.\<close>

definition JSON_stringify :: "json \<Rightarrow> nat \<Rightarrow> jsstring option" where
  "JSON_stringify v n = serialize (replicate (min n 10) 0x20) [] v"

section \<open>Errors\<close>

text \<open>
  What the code throws, written as the \<open>throw new ...(...)\<close> expressions of the source
  with their arguments, together with the errors raised by the platform: a property read
  on \<open>null\<close> or \<open>undefined\<close> (TypeError), \<open>response.json()\<close> on a body that is not
  JSON (SyntaxError), \<open>btoa\<close> and \<open>atob\<close> (InvalidCharacterError),
  \<open>encodeURIComponent\<close> (URIError) and a rejected \<open>fetch\<close>. The second argument of
  \<open>RateLimitError\<close> is a number, \<open>None\<close> standing for NaN.
\<close>

datatype thrown =
    RateLimitError jsstring "int option"
  | AuthenticationError jsstring
  | PermissionDeniedError jsstring
  | NotFoundError jsstring jsstring
  | GCloudApiError json nat
  | TypeError
  | SyntaxError
  | InvalidCharacterError
  | URIError
  | FetchRejected

text \<open>
  The error classes themselves (utils/errors.ts) are not part of the sources at hand. What
  a \<open>catch\<close> clause observes of a thrown value is whether it is an \<open>Error\<close> and, if so,
  the four properties that the formatter reads; \<open>err_code\<close> and \<open>err_statusCode\<close>
  are \<open>JUndefined\<close> when the error does not define them.
\<close>

record js_error =
  err_name :: jsstring
  err_message :: jsstring
  err_code :: json
  err_statusCode :: json

datatype caught = AnError js_error | NotAnError json

section \<open>Platform functions\<close>

subsection \<open>Base64: btoa and atob\<close>

definition b64_char :: "nat \<Rightarrow> 16 word" where
  "b64_char n =
     (if n < 26 then of_nat (65 + n)
      else if n < 52 then of_nat (71 + n)
      else if n < 62 then of_nat (n - 4)
      else if n = 62 then 0x2B
      else 0x2F)"

definition b64_value :: "16 word \<Rightarrow> nat option" where
  "b64_value c =
     (let n = unat c in
      if 65 \<le> n \<and> n \<le> 90 then Some (n - 65)
      else if 97 \<le> n \<and> n \<le> 122 then Some (n - 71)
      else if 48 \<le> n \<and> n \<le> 57 then Some (n + 4)
      else if n = 43 then Some 62
      else if n = 47 then Some 63
      else None)"

text \<open>Bytes to base64 text, three bytes at a time, padded with \<open>=\<close>.\<close>

fun b64_encode :: "nat list \<Rightarrow> jsstring" where
  "b64_encode [] = []"
| "b64_encode [a] = [b64_char (a div 4), b64_char (a mod 4 * 16), 0x3D, 0x3D]"
| "b64_encode [a, b] =
     [b64_char (a div 4), b64_char (a mod 4 * 16 + b div 16), b64_char (b mod 16 * 4), 0x3D]"
| "b64_encode (a # b # c # bs) =
     [b64_char (a div 4), b64_char (a mod 4 * 16 + b div 16),
      b64_char (b mod 16 * 4 + c div 64), b64_char (c mod 64)] @ b64_encode bs"

text \<open>
  Six-bit values to bytes, four values at a time; of a last group of two or three values
  the surplus bits are dropped.
\<close>

fun b64_decode :: "nat list \<Rightarrow> nat list" where
  "b64_decode (w # x # y # z # vs) =
     [w * 4 + x div 16, x mod 16 * 16 + y div 4, y mod 4 * 64 + z] @ b64_decode vs"
| "b64_decode [w, x, y] = [w * 4 + x div 16, x mod 16 * 16 + y div 4]"
| "b64_decode [w, x] = [w * 4 + x div 16]"
| "b64_decode vs = []"

text \<open>\<open>btoa\<close> throws on a code unit above 255 and encodes the code units as bytes.\<close>

definition btoa :: "jsstring \<Rightarrow> thrown + jsstring" where
  "btoa s =
     (if \<exists>c \<in> set s. 0xFF < c then Inl InvalidCharacterError
      else Inr (b64_encode (map unat s)))"

definition ascii_whitespace :: "16 word \<Rightarrow> bool" where
  "ascii_whitespace c = (c = 0x09 \<or> c = 0x0A \<or> c = 0x0C \<or> c = 0x0D \<or> c = 0x20)"

text \<open>Removes one or two \<open>=\<close> from the end.\<close>

fun strip_padding :: "jsstring \<Rightarrow> jsstring" where
  "strip_padding [] = []"
| "strip_padding [c] = (if c = 0x3D then [] else [c])"
| "strip_padding [c, d] = (if d = 0x3D then (if c = 0x3D then [] else [c]) else [c, d])"
| "strip_padding (c # d # e # cs) = c # strip_padding (d # e # cs)"

text \<open>
  \<open>atob\<close> is the forgiving base64 decoding: ASCII whitespace is removed, the padding of a
  text whose length is a multiple of four is removed, and a remaining length of one
  modulo four or a character outside the alphabet is an error.
\<close>

definition atob :: "jsstring \<Rightarrow> thrown + jsstring" where
  "atob d =
     (let s0 = filter (\<lambda>c. \<not> ascii_whitespace c) d;
          s1 = (if length s0 mod 4 = 0 then strip_padding s0 else s0)
      in if length s1 mod 4 = 1 then Inl InvalidCharacterError
         else case those (map b64_value s1) of
                None \<Rightarrow> Inl InvalidCharacterError
              | Some vs \<Rightarrow> Inr (map of_nat (b64_decode vs)))"

subsection \<open>URL encoding\<close>

text \<open>
  The code points of a string; \<open>None\<close> stands for a surrogate that is not part of a pair.
\<close>

fun code_points :: "jsstring \<Rightarrow> nat option list" where
  "code_points [] = []"
| "code_points [c] =
     [if is_high_surrogate c \<or> is_low_surrogate c then None else Some (unat c)]"
| "code_points (c # d # cs) =
     (if is_high_surrogate c \<and> is_low_surrogate d then
        Some (0x10000 + (unat c - 0xD800) * 0x400 + (unat d - 0xDC00)) # code_points cs
      else code_points [c] @ code_points (d # cs))"

definition utf8 :: "nat \<Rightarrow> nat list" where
  "utf8 cp =
     (if cp < 0x80 then [cp]
      else if cp < 0x800 then [0xC0 + cp div 64, 0x80 + cp mod 64]
      else if cp < 0x10000 then [0xE0 + cp div 4096, 0x80 + cp div 64 mod 64, 0x80 + cp mod 64]
      else [0xF0 + cp div 262144, 0x80 + cp div 4096 mod 64, 0x80 + cp div 64 mod 64,
            0x80 + cp mod 64])"

definition upper_hex_digit :: "nat \<Rightarrow> 16 word" where
  "upper_hex_digit d = (if d < 10 then of_nat (48 + d) else of_nat (55 + d))"

definition percent_byte :: "nat \<Rightarrow> jsstring" where
  "percent_byte b = [0x25, upper_hex_digit (b div 16), upper_hex_digit (b mod 16)]"

definition alphanumeric :: "nat \<Rightarrow> bool" where
  "alphanumeric cp = ((48 \<le> cp \<and> cp \<le> 57) \<or> (65 \<le> cp \<and> cp \<le> 90) \<or> (97 \<le> cp \<and> cp \<le> 122))"

text \<open>
  \<open>encodeURIComponent\<close> keeps letters, digits and \<open>- _ . ! ~ * ' ( )\<close>, writes every
  other code point as its percent-encoded UTF-8 bytes, and raises a URIError on a lone
  surrogate.
\<close>

definition uri_unreserved :: "nat \<Rightarrow> bool" where
  "uri_unreserved cp =
     (alphanumeric cp \<or> cp \<in> {0x2D, 0x5F, 0x2E, 0x21, 0x7E, 0x2A, 0x27, 0x28, 0x29})"

definition encodeURIComponent :: "jsstring \<Rightarrow> thrown + jsstring" where
  "encodeURIComponent s =
     (case those (code_points s) of
        None \<Rightarrow> Inl URIError
      | Some cps \<Rightarrow>
          Inr (concat (map (\<lambda>cp. if uri_unreserved cp then [of_nat cp]
                                  else concat (map percent_byte (utf8 cp))) cps)))"

text \<open>
  The serialisation of one \<open>URLSearchParams\<close> name or value: letters, digits and
  \<open>* - . _\<close> are kept, a space becomes \<open>+\<close>, a lone surrogate is replaced by U+FFFD, and
  everything else is percent-encoded.
\<close>

definition form_encode :: "jsstring \<Rightarrow> jsstring" where
  "form_encode s =
     concat (map (\<lambda>p. let cp = (case p of None \<Rightarrow> 0xFFFD | Some n \<Rightarrow> n) in
                       if alphanumeric cp \<or> cp \<in> {0x2A, 0x2D, 0x2E, 0x5F} then [of_nat cp]
                       else if cp = 0x20 then [0x2B]
                       else concat (map percent_byte (utf8 cp)))
                 (code_points s))"

text \<open>\<open>URLSearchParams.toString\<close> of the pairs set so far, in the order they were set.\<close>

definition URLSearchParams_toString :: "(jsstring \<times> jsstring) list \<Rightarrow> jsstring" where
  "URLSearchParams_toString params =
     join (js ''&'') (map (\<lambda>(k, v). form_encode k @ js ''='' @ form_encode v) params)"

subsection \<open>parseInt\<close>

definition str_whitespace :: "16 word \<Rightarrow> bool" where
  "str_whitespace c =
     (c \<in> {0x09, 0x0A, 0x0B, 0x0C, 0x0D, 0x20, 0xA0, 0x1680, 0x2028, 0x2029, 0x202F, 0x205F,
            0x3000, 0xFEFF}
      \<or> (0x2000 \<le> c \<and> c \<le> 0x200A))"

definition is_digit :: "16 word \<Rightarrow> bool" where
  "is_digit c = (0x30 \<le> c \<and> c \<le> 0x39)"

definition digits_value :: "jsstring \<Rightarrow> nat" where
  "digits_value ds = foldl (\<lambda>acc c. 10 * acc + (unat c - 48)) 0 ds"

text \<open>
  \<open>parseInt(s, 10)\<close>: leading white space and one sign are skipped and the longest
  prefix of digits is read; \<open>None\<close> is NaN.
\<close>

definition parseInt10 :: "jsstring \<Rightarrow> int option" where
  "parseInt10 s =
     (let t = dropWhile str_whitespace s;
          negative = (t \<noteq> [] \<and> hd t = 0x2D);
          u = (if t \<noteq> [] \<and> (hd t = 0x2D \<or> hd t = 0x2B) then tl t else t);
          ds = takeWhile is_digit u
      in if ds = [] then None
         else Some (if negative then - int (digits_value ds) else int (digits_value ds)))"

section \<open>Response formatting (utils/formatters.ts)\<close>

text \<open>
  The envelope \<open>{ content: [{ type, text }], isError }\<close>. \<open>item_text\<close> is \<open>None\<close>
  when \<open>JSON.stringify\<close> returns \<open>undefined\<close>; \<open>isError\<close> is \<open>None\<close> when the
  envelope has no such key.
\<close>

record content_item =
  item_type :: jsstring
  item_text :: "jsstring option"

record envelope =
  content :: "content_item list"
  isError :: "bool option"

datatype format = Json | Markdown

text \<open>One table cell of \<open>formatArrayAsMarkdown\<close>: the body of \<open>keys.map\<close>.\<close>

definition table_cell :: "json \<Rightarrow> jsstring" where
  "table_cell v =
     (if v = JNull \<or> v = JUndefined then js ''-''
      else if typeof_object v then js ''[object]''
      else take 50 (String v))"

text \<open>
  One table row: \<open>record[key]\<close> for every key, which raises a TypeError when the item
  is \<open>null\<close> or \<open>undefined\<close> and there is a key to read.
\<close>

definition table_row :: "jsstring list \<Rightarrow> json \<Rightarrow> jsstring option" where
  "table_row keys item =
     map_option (\<lambda>vs. js ''| '' @ join (js '' | '') (map table_cell vs) @ js '' |'')
       (those (map (get_prop item) keys))"

definition formatArrayAsMarkdown :: "json list \<Rightarrow> jsstring option \<Rightarrow> thrown + jsstring" where
  "formatArrayAsMarkdown items resourceType =
     (if items = [] then
        Inr (js ''No ''
             @ (case resourceType of None \<Rightarrow> js ''items''
                | Some r \<Rightarrow> if r = [] then js ''items'' else r)
             @ js '' found.'')
      else
        let firstItem = hd items in
        if \<not> typeof_object firstItem \<or> firstItem = JNull then
          Inr (join [0x0A] (map (\<lambda>item. js ''- '' @ String item) items))
        else
          let keys = take 6 (Object_keys firstItem);
              header = js ''| '' @ join (js '' | '') keys @ js '' |'';
              separator = js ''| '' @ join (js '' | '') (map (\<lambda>k. js ''---'') keys) @ js '' |''
          in case those (map (table_row keys) items) of
               None \<Rightarrow> Inl TypeError
             | Some rows \<Rightarrow> Inr (join [0x0A] ([header, separator] @ rows)))"

definition formatObjectAsMarkdown :: "(jsstring \<times> json) list \<Rightarrow> jsstring option \<Rightarrow> jsstring" where
  "formatObjectAsMarkdown obj resourceType =
     (let title = (case resourceType of None \<Rightarrow> []
                   | Some r \<Rightarrow> if r = [] then [] else js ''## '' @ r @ [0x0A, 0x0A]);
          lines = map (\<lambda>(key, v).
                    if v = JNull \<or> v = JUndefined then js ''**'' @ key @ js '':** -''
                    else if typeof_object v then
                      js ''**'' @ key @ js '':**'' @ [0x0A, 0x60, 0x60, 0x60] @ js ''json''
                      @ [0x0A] @ (case JSON_stringify v 2 of None \<Rightarrow> js ''undefined'' | Some t \<Rightarrow> t)
                      @ [0x0A, 0x60, 0x60, 0x60]
                    else js ''**'' @ key @ js '':** '' @ String v) obj
      in title @ join [0x0A, 0x0A] lines)"

definition formatAsMarkdown :: "json \<Rightarrow> jsstring option \<Rightarrow> thrown + jsstring" where
  "formatAsMarkdown data resourceType =
     (case data of
        JArr items \<Rightarrow> formatArrayAsMarkdown items resourceType
      | JObj obj \<Rightarrow> Inr (formatObjectAsMarkdown obj resourceType)
      | _ \<Rightarrow> Inr (String data))"

definition formatResponse :: "json \<Rightarrow> format \<Rightarrow> jsstring option \<Rightarrow> thrown + envelope" where
  "formatResponse data fmt resourceType =
     (case fmt of
        Markdown \<Rightarrow>
          (case formatAsMarkdown data resourceType of
             Inl e \<Rightarrow> Inl e
           | Inr t \<Rightarrow> Inr \<lparr>content = [\<lparr>item_type = js ''text'', item_text = Some t\<rparr>],
                         isError = None\<rparr>)
      | Json \<Rightarrow>
          Inr \<lparr>content = [\<lparr>item_type = js ''text'', item_text = JSON_stringify data 2\<rparr>],
               isError = None\<rparr>)"

definition formatError :: "caught \<Rightarrow> envelope" where
  "formatError error =
     (let message =
        (case error of
           AnError e \<Rightarrow>
             JSON_stringify
               (JObj [(js ''error'', JBool True),
                      (js ''name'', JStr (err_name e)),
                      (js ''message'', JStr (err_message e)),
                      (js ''code'', err_code e),
                      (js ''statusCode'', err_statusCode e)]) 2
         | NotAnError v \<Rightarrow>
             JSON_stringify
               (JObj [(js ''error'', JBool True), (js ''message'', JStr (String v))]) 2)
      in \<lparr>content = [\<lparr>item_type = js ''text'', item_text = message\<rparr>],
          isError = Some True\<rparr>)"

text \<open>\<open>truncate\<close>: strings longer than \<open>maxLength\<close> are cut and end in three dots.\<close>

definition truncate :: "jsstring \<Rightarrow> int \<Rightarrow> jsstring" where
  "truncate str maxLength =
     (if int (length str) \<le> maxLength then str
      else take (nat (maxLength - 3)) str @ js ''...'')"

section \<open>The HTTP client (client.ts)\<close>

subsection \<open>Transport\<close>

text \<open>
  The arguments of one \<open>fetch\<close> call. \<open>req_method\<close> is \<open>None\<close> when the call names no
  method, in which case \<open>fetch\<close> issues a GET.
\<close>

record http_request =
  req_url :: jsstring
  req_method :: "jsstring option"
  req_body :: "jsstring option"
  req_headers :: "(jsstring \<times> jsstring) list"


text \<open>
  A response that has been received completely: its status, its \<open>Retry-After\<close> header
  (\<open>None\<close> when absent) and its body as \<open>JSON.parse\<close> reads it, \<open>None\<close> when the body is
  not JSON.
\<close>

record response =
  resp_status :: nat
  resp_retry_after :: "jsstring option"
  resp_json :: "json option"

datatype fetch_result = Rejected | Responded response

text \<open>
  The world outside the sources at hand: the network, which answers a request knowing the
  requests issued before it, and the view that a \<open>catch\<close> clause has of a thrown value,
  which the absent error classes and the JavaScript engine determine.
\<close>

record platform =
  fetch :: "http_request list \<Rightarrow> http_request \<Rightarrow> fetch_result"
  error_object :: "thrown \<Rightarrow> caught"

text \<open>
  An asynchronous computation: it starts from the list of requests issued so far, and
  ends with a value or a thrown error and the extended list.
\<close>

type_synonym 'a io = "http_request list \<Rightarrow> (thrown + 'a) \<times> http_request list"

definition io_return :: "'a \<Rightarrow> 'a io" where
  "io_return x = (\<lambda>log. (Inr x, log))"

definition io_throw :: "thrown \<Rightarrow> 'a io" where
  "io_throw e = (\<lambda>log. (Inl e, log))"

definition io_bind :: "'a io \<Rightarrow> ('a \<Rightarrow> 'b io) \<Rightarrow> 'b io" where
  "io_bind m f = (\<lambda>log. case m log of
                          (Inl e, log') \<Rightarrow> (Inl e, log')
                        | (Inr x, log') \<Rightarrow> f x log')"

definition io_lift :: "thrown + 'a \<Rightarrow> 'a io" where
  "io_lift r = (case r of Inl e \<Rightarrow> io_throw e | Inr x \<Rightarrow> io_return x)"

text \<open>A property read that raises a TypeError on \<open>null\<close> and \<open>undefined\<close>.\<close>

definition io_prop :: "json \<Rightarrow> jsstring \<Rightarrow> json io" where
  "io_prop v k = (case get_prop v k of None \<Rightarrow> io_throw TypeError | Some x \<Rightarrow> io_return x)"

subsection \<open>Credentials and the request helper\<close>

text \<open>
  The tenant credentials of a request (types/env.ts is not part of the sources at hand;
  the client reads these two fields, each of which may be absent).
\<close>

record tenant_credentials =
  cred_accessToken :: "jsstring option"
  cred_projectId :: "jsstring option"

record request_init =
  opt_method :: "jsstring option"
  opt_body :: "jsstring option"
  opt_headers :: "(jsstring \<times> jsstring) list option"

definition no_options :: request_init where
  "no_options = \<lparr>opt_method = None, opt_body = None, opt_headers = None\<rparr>"

definition with_method :: "string \<Rightarrow> request_init" where
  "with_method m = \<lparr>opt_method = Some (js m), opt_body = None, opt_headers = None\<rparr>"

definition with_body :: "string \<Rightarrow> json \<Rightarrow> request_init" where
  "with_body m b = \<lparr>opt_method = Some (js m), opt_body = JSON_stringify b 0, opt_headers = None\<rparr>"

text \<open>\<open>{ ...a, ...b }\<close> on objects given by their properties.\<close>

definition spread :: "(jsstring \<times> 'v) list \<Rightarrow> (jsstring \<times> 'v) list \<Rightarrow> (jsstring \<times> 'v) list" where
  "spread a b =
     map (\<lambda>(k, v). (k, case map_of b k of Some w \<Rightarrow> w | None \<Rightarrow> v)) a
     @ filter (\<lambda>(k, v). map_of a k = None) b"

definition getAuthHeaders :: "tenant_credentials \<Rightarrow> thrown + (jsstring \<times> jsstring) list" where
  "getAuthHeaders creds =
     (case cred_accessToken creds of
        None \<Rightarrow>
          Inl (AuthenticationError
                 (js ''No access token provided. Include X-GCloud-Access-Token header.''))
      | Some token \<Rightarrow>
          if token = [] then
            Inl (AuthenticationError
                   (js ''No access token provided. Include X-GCloud-Access-Token header.''))
          else
            Inr [(js ''Authorization'', js ''Bearer '' @ token),
                 (js ''Content-Type'', js ''application/json'')])"

text \<open>
  The message of the generic error: \<open>errorJson.error?.message || errorJson.message ||
  message\<close> inside \<open>try\<close>, where a body that does not parse, and the TypeError of reading
  a property of \<open>null\<close>, leave the default message.
\<close>

definition error_message :: "json option \<Rightarrow> nat \<Rightarrow> json" where
  "error_message parsed st =
     (let message = JStr (js ''API error: '' @ nat_str st) in
      case parsed of
        None \<Rightarrow> message
      | Some errorJson \<Rightarrow>
          (case get_prop errorJson (js ''error'') of
             None \<Rightarrow> message
           | Some err \<Rightarrow>
               js_or (js_or (get_prop_opt err (js ''message''))
                            (own_prop errorJson (js ''message'')))
                     message))"

text \<open>
  The arguments that \<open>request\<close> passes to \<open>fetch\<close>:
  \<open>fetch(url, { ...options, headers: { ...this.getAuthHeaders(), ...(options.headers || {}) } })\<close>.
\<close>

definition fetch_args :: "(jsstring \<times> jsstring) list \<Rightarrow> jsstring \<Rightarrow> request_init \<Rightarrow> http_request" where
  "fetch_args auth url options =
     \<lparr>req_url = url, req_method = opt_method options, req_body = opt_body options,
      req_headers = spread auth (case opt_headers options of None \<Rightarrow> [] | Some h \<Rightarrow> h)\<rparr>"

definition request :: "platform \<Rightarrow> tenant_credentials \<Rightarrow> jsstring \<Rightarrow> request_init \<Rightarrow> json io" where
  "request P creds url options =
     (\<lambda>log.
        case getAuthHeaders creds of
          Inl e \<Rightarrow> (Inl e, log)
        | Inr auth \<Rightarrow>
            (case fetch P log (fetch_args auth url options) of
               Rejected \<Rightarrow> (Inl FetchRejected, log @ [fetch_args auth url options])
             | Responded response \<Rightarrow>
                 (if resp_status response = 429 then
                    Inl (RateLimitError (js ''Rate limit exceeded'')
                           (case resp_retry_after response of
                              None \<Rightarrow> Some 60
                            | Some retryAfter \<Rightarrow>
                                if retryAfter = [] then Some 60 else parseInt10 retryAfter))
                  else if resp_status response = 401 then
                    Inl (AuthenticationError
                           (js ''Authentication failed. Check your access token.''))
                  else if resp_status response = 403 then
                    Inl (PermissionDeniedError
                           (js ''Permission denied. Check your IAM permissions.''))
                  else if resp_status response = 404 then
                    Inl (NotFoundError (js ''Resource'') url)
                  else if \<not> (200 \<le> resp_status response \<and> resp_status response \<le> 299) then
                    Inl (GCloudApiError
                           (error_message (resp_json response) (resp_status response))
                           (resp_status response))
                  else if resp_status response = 204 then Inr JUndefined
                  else (case resp_json response of
                          None \<Rightarrow> Inl SyntaxError
                        | Some v \<Rightarrow> Inr v),
                  log @ [fetch_args auth url options])))"

subsection \<open>Endpoints\<close>

definition API_URLS_compute :: jsstring where
  "API_URLS_compute = js ''https://compute.googleapis.com/compute/v1''"

definition API_URLS_storage :: jsstring where
  "API_URLS_storage = js ''https://storage.googleapis.com/storage/v1''"

definition API_URLS_functions :: jsstring where
  "API_URLS_functions = js ''https://cloudfunctions.googleapis.com/v2''"

definition API_URLS_run :: jsstring where
  "API_URLS_run = js ''https://run.googleapis.com/v2''"

definition API_URLS_bigquery :: jsstring where
  "API_URLS_bigquery = js ''https://bigquery.googleapis.com/bigquery/v2''"

definition API_URLS_pubsub :: jsstring where
  "API_URLS_pubsub = js ''https://pubsub.googleapis.com/v1''"

definition API_URLS_sql :: jsstring where
  "API_URLS_sql = js ''https://sqladmin.googleapis.com/sql/v1beta4''"

definition API_URLS_iam :: jsstring where
  "API_URLS_iam = js ''https://iam.googleapis.com/v1''"

definition API_URLS_secretmanager :: jsstring where
  "API_URLS_secretmanager = js ''https://secretmanager.googleapis.com/v1''"

definition API_URLS_dns :: jsstring where
  "API_URLS_dns = js ''https://dns.googleapis.com/dns/v1''"

definition API_URLS_container :: jsstring where
  "API_URLS_container = js ''https://container.googleapis.com/v1''"

definition API_URLS_logging :: jsstring where
  "API_URLS_logging = js ''https://logging.googleapis.com/v2''"

definition opt_str :: "jsstring option \<Rightarrow> json" where
  "opt_str s = (case s of None \<Rightarrow> JUndefined | Some t \<Rightarrow> JStr t)"

text \<open>\<open>try { ... } catch (error) { ... }\<close>\<close>

definition io_catch :: "'a io \<Rightarrow> (thrown \<Rightarrow> 'a io) \<Rightarrow> 'a io" where
  "io_catch m h = (\<lambda>log. case m log of
                           (Inl e, log') \<Rightarrow> h e log'
                         | (Inr x, log') \<Rightarrow> (Inr x, log'))"

subsection \<open>Client operations\<close>

text \<open>
  The methods of \<open>GCloudClientImpl\<close>, in the order of the source. A parameter with a
  default value or a question mark is an option; a parameter of an object type is the
  JSON value passed. A method that awaits the request without returning it yields
  \<open>undefined\<close>.
\<close>

definition testConnection :: "platform \<Rightarrow> tenant_credentials \<Rightarrow> json io" where
  "testConnection P creds =
     io_catch
       (case cred_projectId creds of
          None \<Rightarrow>
            io_return (JObj [(js ''connected'', JBool False),
                             (js ''message'',
                              JStr (js ''No project ID provided. Set X-GCloud-Project-ID header.''))])
        | Some projectId \<Rightarrow>
            if projectId = [] then
              io_return (JObj [(js ''connected'', JBool False),
                               (js ''message'',
                                JStr (js ''No project ID provided. Set X-GCloud-Project-ID header.''))])
            else
              io_bind (request P creds (API_URLS_compute @ js ''/projects/'' @ projectId) no_options)
                (\<lambda>r. io_return
                       (JObj [(js ''connected'', JBool True),
                              (js ''message'',
                               JStr (js ''Successfully connected to GCP project: '' @ projectId))])))
       (\<lambda>error. io_return
                  (JObj [(js ''connected'', JBool False),
                         (js ''message'',
                          JStr (case error_object P error of
                                  AnError e \<Rightarrow> err_message e
                                | NotAnError v \<Rightarrow> js ''Connection failed''))]))"

definition listInstances ::
  "platform \<Rightarrow> tenant_credentials \<Rightarrow> jsstring \<Rightarrow> jsstring \<Rightarrow> json io" where
  "listInstances P creds projectId zone =
     request P creds
       (API_URLS_compute @ js ''/projects/'' @ projectId @ js ''/zones/'' @ zone @ js ''/instances'')
       no_options"

definition getInstance ::
  "platform \<Rightarrow> tenant_credentials \<Rightarrow> jsstring \<Rightarrow> jsstring \<Rightarrow> jsstring \<Rightarrow> json io" where
  "getInstance P creds projectId zone instanceName =
     request P creds
       (API_URLS_compute @ js ''/projects/'' @ projectId @ js ''/zones/'' @ zone @ js ''/instances/'' @ instanceName)
       no_options"

definition createInstance ::
  "platform \<Rightarrow> tenant_credentials \<Rightarrow> jsstring \<Rightarrow> jsstring \<Rightarrow> json \<Rightarrow> json io" where
  "createInstance P creds projectId zone instance =
     request P creds
       (API_URLS_compute @ js ''/projects/'' @ projectId @ js ''/zones/'' @ zone @ js ''/instances'')
       (with_body ''POST''
          (instance))"

definition deleteInstance ::
  "platform \<Rightarrow> tenant_credentials \<Rightarrow> jsstring \<Rightarrow> jsstring \<Rightarrow> jsstring \<Rightarrow> json io" where
  "deleteInstance P creds projectId zone instanceName =
     request P creds
       (API_URLS_compute @ js ''/projects/'' @ projectId @ js ''/zones/'' @ zone @ js ''/instances/'' @ instanceName)
       (with_method ''DELETE'')"

definition startInstance ::
  "platform \<Rightarrow> tenant_credentials \<Rightarrow> jsstring \<Rightarrow> jsstring \<Rightarrow> jsstring \<Rightarrow> json io" where
  "startInstance P creds projectId zone instanceName =
     request P creds
       (API_URLS_compute @ js ''/projects/'' @ projectId @ js ''/zones/'' @ zone @ js ''/instances/'' @ instanceName @ js ''/start'')
       (with_method ''POST'')"

definition stopInstance ::
  "platform \<Rightarrow> tenant_credentials \<Rightarrow> jsstring \<Rightarrow> jsstring \<Rightarrow> jsstring \<Rightarrow> json io" where
  "stopInstance P creds projectId zone instanceName =
     request P creds
       (API_URLS_compute @ js ''/projects/'' @ projectId @ js ''/zones/'' @ zone @ js ''/instances/'' @ instanceName @ js ''/stop'')
       (with_method ''POST'')"

definition resetInstance ::
  "platform \<Rightarrow> tenant_credentials \<Rightarrow> jsstring \<Rightarrow> jsstring \<Rightarrow> jsstring \<Rightarrow> json io" where
  "resetInstance P creds projectId zone instanceName =
     request P creds
       (API_URLS_compute @ js ''/projects/'' @ projectId @ js ''/zones/'' @ zone @ js ''/instances/'' @ instanceName @ js ''/reset'')
       (with_method ''POST'')"

definition listDisks ::
  "platform \<Rightarrow> tenant_credentials \<Rightarrow> jsstring \<Rightarrow> jsstring \<Rightarrow> json io" where
  "listDisks P creds projectId zone =
     request P creds
       (API_URLS_compute @ js ''/projects/'' @ projectId @ js ''/zones/'' @ zone @ js ''/disks'')
       no_options"

definition getDisk ::
  "platform \<Rightarrow> tenant_credentials \<Rightarrow> jsstring \<Rightarrow> jsstring \<Rightarrow> jsstring \<Rightarrow> json io" where
  "getDisk P creds projectId zone diskName =
     request P creds
       (API_URLS_compute @ js ''/projects/'' @ projectId @ js ''/zones/'' @ zone @ js ''/disks/'' @ diskName)
       no_options"

definition createDisk ::
  "platform \<Rightarrow> tenant_credentials \<Rightarrow> jsstring \<Rightarrow> jsstring \<Rightarrow> json \<Rightarrow> json io" where
  "createDisk P creds projectId zone disk =
     request P creds
       (API_URLS_compute @ js ''/projects/'' @ projectId @ js ''/zones/'' @ zone @ js ''/disks'')
       (with_body ''POST''
          (disk))"

definition deleteDisk ::
  "platform \<Rightarrow> tenant_credentials \<Rightarrow> jsstring \<Rightarrow> jsstring \<Rightarrow> jsstring \<Rightarrow> json io" where
  "deleteDisk P creds projectId zone diskName =
     request P creds
       (API_URLS_compute @ js ''/projects/'' @ projectId @ js ''/zones/'' @ zone @ js ''/disks/'' @ diskName)
       (with_method ''DELETE'')"

definition resizeDisk ::
  "platform \<Rightarrow> tenant_credentials \<Rightarrow> jsstring \<Rightarrow> jsstring \<Rightarrow> jsstring \<Rightarrow> jsstring \<Rightarrow> json io" where
  "resizeDisk P creds projectId zone diskName sizeGb =
     request P creds
       (API_URLS_compute @ js ''/projects/'' @ projectId @ js ''/zones/'' @ zone @ js ''/disks/'' @ diskName @ js ''/resize'')
       (with_body ''POST''
          (JObj [(js ''sizeGb'', JStr sizeGb)]))"

definition listNetworks ::
  "platform \<Rightarrow> tenant_credentials \<Rightarrow> jsstring \<Rightarrow> json io" where
  "listNetworks P creds projectId =
     request P creds
       (API_URLS_compute @ js ''/projects/'' @ projectId @ js ''/global/networks'')
       no_options"

definition getNetwork ::
  "platform \<Rightarrow> tenant_credentials \<Rightarrow> jsstring \<Rightarrow> jsstring \<Rightarrow> json io" where
  "getNetwork P creds projectId networkName =
     request P creds
       (API_URLS_compute @ js ''/projects/'' @ projectId @ js ''/global/networks/'' @ networkName)
       no_options"

definition createNetwork ::
  "platform \<Rightarrow> tenant_credentials \<Rightarrow> jsstring \<Rightarrow> json \<Rightarrow> json io" where
  "createNetwork P creds projectId network =
     request P creds
       (API_URLS_compute @ js ''/projects/'' @ projectId @ js ''/global/networks'')
       (with_body ''POST''
          (network))"

definition deleteNetwork ::
  "platform \<Rightarrow> tenant_credentials \<Rightarrow> jsstring \<Rightarrow> jsstring \<Rightarrow> json io" where
  "deleteNetwork P creds projectId networkName =
     request P creds
       (API_URLS_compute @ js ''/projects/'' @ projectId @ js ''/global/networks/'' @ networkName)
       (with_method ''DELETE'')"

definition listFirewalls ::
  "platform \<Rightarrow> tenant_credentials \<Rightarrow> jsstring \<Rightarrow> json io" where
  "listFirewalls P creds projectId =
     request P creds
       (API_URLS_compute @ js ''/projects/'' @ projectId @ js ''/global/firewalls'')
       no_options"

definition getFirewall ::
  "platform \<Rightarrow> tenant_credentials \<Rightarrow> jsstring \<Rightarrow> jsstring \<Rightarrow> json io" where
  "getFirewall P creds projectId firewallName =
     request P creds
       (API_URLS_compute @ js ''/projects/'' @ projectId @ js ''/global/firewalls/'' @ firewallName)
       no_options"

definition createFirewall ::
  "platform \<Rightarrow> tenant_credentials \<Rightarrow> jsstring \<Rightarrow> json \<Rightarrow> json io" where
  "createFirewall P creds projectId firewall =
     request P creds
       (API_URLS_compute @ js ''/projects/'' @ projectId @ js ''/global/firewalls'')
       (with_body ''POST''
          (firewall))"

definition deleteFirewall ::
  "platform \<Rightarrow> tenant_credentials \<Rightarrow> jsstring \<Rightarrow> jsstring \<Rightarrow> json io" where
  "deleteFirewall P creds projectId firewallName =
     request P creds
       (API_URLS_compute @ js ''/projects/'' @ projectId @ js ''/global/firewalls/'' @ firewallName)
       (with_method ''DELETE'')"

definition listBuckets ::
  "platform \<Rightarrow> tenant_credentials \<Rightarrow> jsstring \<Rightarrow> json io" where
  "listBuckets P creds projectId =
     request P creds
       (API_URLS_storage @ js ''/b?project='' @ projectId)
       no_options"

definition getBucket ::
  "platform \<Rightarrow> tenant_credentials \<Rightarrow> jsstring \<Rightarrow> json io" where
  "getBucket P creds bucketName =
     request P creds
       (API_URLS_storage @ js ''/b/'' @ bucketName)
       no_options"

definition createBucket ::
  "platform \<Rightarrow> tenant_credentials \<Rightarrow> jsstring \<Rightarrow> json \<Rightarrow> json io" where
  "createBucket P creds projectId bucket =
     request P creds
       (API_URLS_storage @ js ''/b?project='' @ projectId)
       (with_body ''POST''
          (bucket))"

definition deleteBucket ::
  "platform \<Rightarrow> tenant_credentials \<Rightarrow> jsstring \<Rightarrow> json io" where
  "deleteBucket P creds bucketName =
     io_bind (request P creds
         (API_URLS_storage @ js ''/b/'' @ bucketName)
         (with_method ''DELETE''))
       (\<lambda>r. io_return JUndefined)"

definition listObjects ::
  "platform \<Rightarrow> tenant_credentials \<Rightarrow> jsstring \<Rightarrow> jsstring option \<Rightarrow> int option \<Rightarrow> json io" where
  "listObjects P creds bucketName prefix' maxResults =
     (let params = (case prefix' of None \<Rightarrow> []
                    | Some p \<Rightarrow> if p = [] then [] else [(js ''prefix'', p)])
                   @ (case maxResults of None \<Rightarrow> []
                      | Some n \<Rightarrow> if n = 0 then [] else [(js ''maxResults'', int_str n)]);
          query = URLSearchParams_toString params
      in request P creds
           (API_URLS_storage @ js ''/b/'' @ bucketName @ js ''/o''
            @ (if query = [] then [] else js ''?'' @ query))
           no_options)"

definition getObject :: "platform \<Rightarrow> tenant_credentials \<Rightarrow> jsstring \<Rightarrow> jsstring \<Rightarrow> json io" where
  "getObject P creds bucketName objectName =
     io_bind (io_lift (encodeURIComponent objectName))
       (\<lambda>encoded. request P creds
                    (API_URLS_storage @ js ''/b/'' @ bucketName @ js ''/o/'' @ encoded)
                    no_options)"

definition deleteObject :: "platform \<Rightarrow> tenant_credentials \<Rightarrow> jsstring \<Rightarrow> jsstring \<Rightarrow> json io" where
  "deleteObject P creds bucketName objectName =
     io_bind (io_lift (encodeURIComponent objectName))
       (\<lambda>encoded.
          io_bind (request P creds
                     (API_URLS_storage @ js ''/b/'' @ bucketName @ js ''/o/'' @ encoded)
                     (with_method ''DELETE''))
            (\<lambda>r. io_return JUndefined))"

definition copyObject ::
  "platform \<Rightarrow> tenant_credentials \<Rightarrow> jsstring \<Rightarrow> jsstring \<Rightarrow> jsstring \<Rightarrow> jsstring \<Rightarrow> json io" where
  "copyObject P creds sourceBucket sourceObject destBucket destObject =
     io_bind (io_lift (encodeURIComponent sourceObject))
       (\<lambda>encodedSource.
          io_bind (io_lift (encodeURIComponent destObject))
            (\<lambda>encodedDest.
               request P creds
                 (API_URLS_storage @ js ''/b/'' @ sourceBucket @ js ''/o/'' @ encodedSource
                  @ js ''/copyTo/b/'' @ destBucket @ js ''/o/'' @ encodedDest)
                 (with_method ''POST'')))"

definition listFunctions ::
  "platform \<Rightarrow> tenant_credentials \<Rightarrow> jsstring \<Rightarrow> jsstring \<Rightarrow> json io" where
  "listFunctions P creds projectId location =
     request P creds
       (API_URLS_functions @ js ''/projects/'' @ projectId @ js ''/locations/'' @ location @ js ''/functions'')
       no_options"

definition getFunction ::
  "platform \<Rightarrow> tenant_credentials \<Rightarrow> jsstring \<Rightarrow> jsstring \<Rightarrow> jsstring \<Rightarrow> json io" where
  "getFunction P creds projectId location functionName =
     request P creds
       (API_URLS_functions @ js ''/projects/'' @ projectId @ js ''/locations/'' @ location @ js ''/functions/'' @ functionName)
       no_options"

definition deleteFunction ::
  "platform \<Rightarrow> tenant_credentials \<Rightarrow> jsstring \<Rightarrow> jsstring \<Rightarrow> jsstring \<Rightarrow> json io" where
  "deleteFunction P creds projectId location functionName =
     request P creds
       (API_URLS_functions @ js ''/projects/'' @ projectId @ js ''/locations/'' @ location @ js ''/functions/'' @ functionName)
       (with_method ''DELETE'')"

definition listCloudRunServices ::
  "platform \<Rightarrow> tenant_credentials \<Rightarrow> jsstring \<Rightarrow> jsstring \<Rightarrow> json io" where
  "listCloudRunServices P creds projectId location =
     request P creds
       (API_URLS_run @ js ''/projects/'' @ projectId @ js ''/locations/'' @ location @ js ''/services'')
       no_options"

definition getCloudRunService ::
  "platform \<Rightarrow> tenant_credentials \<Rightarrow> jsstring \<Rightarrow> jsstring \<Rightarrow> jsstring \<Rightarrow> json io" where
  "getCloudRunService P creds projectId location serviceName =
     request P creds
       (API_URLS_run @ js ''/projects/'' @ projectId @ js ''/locations/'' @ location @ js ''/services/'' @ serviceName)
       no_options"

definition deleteCloudRunService ::
  "platform \<Rightarrow> tenant_credentials \<Rightarrow> jsstring \<Rightarrow> jsstring \<Rightarrow> jsstring \<Rightarrow> json io" where
  "deleteCloudRunService P creds projectId location serviceName =
     request P creds
       (API_URLS_run @ js ''/projects/'' @ projectId @ js ''/locations/'' @ location @ js ''/services/'' @ serviceName)
       (with_method ''DELETE'')"

definition listDatasets ::
  "platform \<Rightarrow> tenant_credentials \<Rightarrow> jsstring \<Rightarrow> json io" where
  "listDatasets P creds projectId =
     request P creds
       (API_URLS_bigquery @ js ''/projects/'' @ projectId @ js ''/datasets'')
       no_options"

definition getDataset ::
  "platform \<Rightarrow> tenant_credentials \<Rightarrow> jsstring \<Rightarrow> jsstring \<Rightarrow> json io" where
  "getDataset P creds projectId datasetId =
     request P creds
       (API_URLS_bigquery @ js ''/projects/'' @ projectId @ js ''/datasets/'' @ datasetId)
       no_options"

definition createDataset ::
  "platform \<Rightarrow> tenant_credentials \<Rightarrow> jsstring \<Rightarrow> json \<Rightarrow> json io" where
  "createDataset P creds projectId dataset =
     request P creds
       (API_URLS_bigquery @ js ''/projects/'' @ projectId @ js ''/datasets'')
       (with_body ''POST''
          (dataset))"

definition deleteDataset ::
  "platform \<Rightarrow> tenant_credentials \<Rightarrow> jsstring \<Rightarrow> jsstring \<Rightarrow> bool option \<Rightarrow> json io" where
  "deleteDataset P creds projectId datasetId deleteContents =
     io_bind (request P creds
                (API_URLS_bigquery @ js ''/projects/'' @ projectId @ js ''/datasets/'' @ datasetId
                 @ js ''?deleteContents=''
                 @ String (JBool (case deleteContents of None \<Rightarrow> False | Some b \<Rightarrow> b)))
                (with_method ''DELETE''))
       (\<lambda>r. io_return JUndefined)"

definition listTables ::
  "platform \<Rightarrow> tenant_credentials \<Rightarrow> jsstring \<Rightarrow> jsstring \<Rightarrow> json io" where
  "listTables P creds projectId datasetId =
     request P creds
       (API_URLS_bigquery @ js ''/projects/'' @ projectId @ js ''/datasets/'' @ datasetId @ js ''/tables'')
       no_options"

definition getTable ::
  "platform \<Rightarrow> tenant_credentials \<Rightarrow> jsstring \<Rightarrow> jsstring \<Rightarrow> jsstring \<Rightarrow> json io" where
  "getTable P creds projectId datasetId tableId =
     request P creds
       (API_URLS_bigquery @ js ''/projects/'' @ projectId @ js ''/datasets/'' @ datasetId @ js ''/tables/'' @ tableId)
       no_options"

definition runQuery ::
  "platform \<Rightarrow> tenant_credentials \<Rightarrow> jsstring \<Rightarrow> jsstring \<Rightarrow> bool option \<Rightarrow> json io" where
  "runQuery P creds projectId query useLegacySql =
     request P creds
       (API_URLS_bigquery @ js ''/projects/'' @ projectId @ js ''/queries'')
       (with_body ''POST''
          (JObj [(js ''query'', JStr query),
                (js ''useLegacySql'', JBool (case useLegacySql of None \<Rightarrow> False | Some b \<Rightarrow> b))]))"

definition listTopics ::
  "platform \<Rightarrow> tenant_credentials \<Rightarrow> jsstring \<Rightarrow> json io" where
  "listTopics P creds projectId =
     request P creds
       (API_URLS_pubsub @ js ''/projects/'' @ projectId @ js ''/topics'')
       no_options"

definition getTopic ::
  "platform \<Rightarrow> tenant_credentials \<Rightarrow> jsstring \<Rightarrow> jsstring \<Rightarrow> json io" where
  "getTopic P creds projectId topicName =
     request P creds
       (API_URLS_pubsub @ js ''/projects/'' @ projectId @ js ''/topics/'' @ topicName)
       no_options"

definition createTopic ::
  "platform \<Rightarrow> tenant_credentials \<Rightarrow> jsstring \<Rightarrow> jsstring \<Rightarrow> json io" where
  "createTopic P creds projectId topicName =
     request P creds
       (API_URLS_pubsub @ js ''/projects/'' @ projectId @ js ''/topics/'' @ topicName)
       (with_method ''PUT'')"

definition deleteTopic ::
  "platform \<Rightarrow> tenant_credentials \<Rightarrow> jsstring \<Rightarrow> jsstring \<Rightarrow> json io" where
  "deleteTopic P creds projectId topicName =
     io_bind (request P creds
         (API_URLS_pubsub @ js ''/projects/'' @ projectId @ js ''/topics/'' @ topicName)
         (with_method ''DELETE''))
       (\<lambda>r. io_return JUndefined)"

definition publishMessage ::
  "platform \<Rightarrow> tenant_credentials \<Rightarrow> jsstring \<Rightarrow> jsstring \<Rightarrow> json \<Rightarrow> json io" where
  "publishMessage P creds projectId topicName messages =
     request P creds
       (API_URLS_pubsub @ js ''/projects/'' @ projectId @ js ''/topics/'' @ topicName @ js '':publish'')
       (with_body ''POST''
          (JObj [(js ''messages'', messages)]))"

definition listSubscriptions ::
  "platform \<Rightarrow> tenant_credentials \<Rightarrow> jsstring \<Rightarrow> json io" where
  "listSubscriptions P creds projectId =
     request P creds
       (API_URLS_pubsub @ js ''/projects/'' @ projectId @ js ''/subscriptions'')
       no_options"

definition getSubscription ::
  "platform \<Rightarrow> tenant_credentials \<Rightarrow> jsstring \<Rightarrow> jsstring \<Rightarrow> json io" where
  "getSubscription P creds projectId subscriptionName =
     request P creds
       (API_URLS_pubsub @ js ''/projects/'' @ projectId @ js ''/subscriptions/'' @ subscriptionName)
       no_options"

definition createSubscription ::
  "platform \<Rightarrow> tenant_credentials \<Rightarrow> jsstring \<Rightarrow> jsstring \<Rightarrow> jsstring \<Rightarrow> json io" where
  "createSubscription P creds projectId subscriptionName topicName =
     request P creds
       (API_URLS_pubsub @ js ''/projects/'' @ projectId @ js ''/subscriptions/'' @ subscriptionName)
       (with_body ''PUT''
          (JObj [(js ''topic'', JStr (js ''projects/'' @ projectId @ js ''/topics/'' @ topicName))]))"

definition deleteSubscription ::
  "platform \<Rightarrow> tenant_credentials \<Rightarrow> jsstring \<Rightarrow> jsstring \<Rightarrow> json io" where
  "deleteSubscription P creds projectId subscriptionName =
     io_bind (request P creds
         (API_URLS_pubsub @ js ''/projects/'' @ projectId @ js ''/subscriptions/'' @ subscriptionName)
         (with_method ''DELETE''))
       (\<lambda>r. io_return JUndefined)"

definition pullMessages ::
  "platform \<Rightarrow> tenant_credentials \<Rightarrow> jsstring \<Rightarrow> jsstring \<Rightarrow> int option \<Rightarrow> json io" where
  "pullMessages P creds projectId subscriptionName maxMessages =
     request P creds
       (API_URLS_pubsub @ js ''/projects/'' @ projectId @ js ''/subscriptions/'' @ subscriptionName @ js '':pull'')
       (with_body ''POST''
          (JObj [(js ''maxMessages'', JNum (case maxMessages of None \<Rightarrow> 10 | Some n \<Rightarrow> n))]))"

definition acknowledgeMessages ::
  "platform \<Rightarrow> tenant_credentials \<Rightarrow> jsstring \<Rightarrow> jsstring \<Rightarrow> jsstring list \<Rightarrow> json io" where
  "acknowledgeMessages P creds projectId subscriptionName ackIds =
     io_bind (request P creds
         (API_URLS_pubsub @ js ''/projects/'' @ projectId @ js ''/subscriptions/'' @ subscriptionName @ js '':acknowledge'')
         (with_body ''POST''
            (JObj [(js ''ackIds'', JArr (map JStr ackIds))])))
       (\<lambda>r. io_return JUndefined)"

definition listSqlInstances ::
  "platform \<Rightarrow> tenant_credentials \<Rightarrow> jsstring \<Rightarrow> json io" where
  "listSqlInstances P creds projectId =
     request P creds
       (API_URLS_sql @ js ''/projects/'' @ projectId @ js ''/instances'')
       no_options"

definition getSqlInstance ::
  "platform \<Rightarrow> tenant_credentials \<Rightarrow> jsstring \<Rightarrow> jsstring \<Rightarrow> json io" where
  "getSqlInstance P creds projectId instanceName =
     request P creds
       (API_URLS_sql @ js ''/projects/'' @ projectId @ js ''/instances/'' @ instanceName)
       no_options"

definition deleteSqlInstance ::
  "platform \<Rightarrow> tenant_credentials \<Rightarrow> jsstring \<Rightarrow> jsstring \<Rightarrow> json io" where
  "deleteSqlInstance P creds projectId instanceName =
     request P creds
       (API_URLS_sql @ js ''/projects/'' @ projectId @ js ''/instances/'' @ instanceName)
       (with_method ''DELETE'')"

definition restartSqlInstance ::
  "platform \<Rightarrow> tenant_credentials \<Rightarrow> jsstring \<Rightarrow> jsstring \<Rightarrow> json io" where
  "restartSqlInstance P creds projectId instanceName =
     request P creds
       (API_URLS_sql @ js ''/projects/'' @ projectId @ js ''/instances/'' @ instanceName @ js ''/restart'')
       (with_method ''POST'')"

definition listDatabases ::
  "platform \<Rightarrow> tenant_credentials \<Rightarrow> jsstring \<Rightarrow> jsstring \<Rightarrow> json io" where
  "listDatabases P creds projectId instanceName =
     request P creds
       (API_URLS_sql @ js ''/projects/'' @ projectId @ js ''/instances/'' @ instanceName @ js ''/databases'')
       no_options"

definition getDatabase ::
  "platform \<Rightarrow> tenant_credentials \<Rightarrow> jsstring \<Rightarrow> jsstring \<Rightarrow> jsstring \<Rightarrow> json io" where
  "getDatabase P creds projectId instanceName databaseName =
     request P creds
       (API_URLS_sql @ js ''/projects/'' @ projectId @ js ''/instances/'' @ instanceName @ js ''/databases/'' @ databaseName)
       no_options"

definition createDatabase ::
  "platform \<Rightarrow> tenant_credentials \<Rightarrow> jsstring \<Rightarrow> jsstring \<Rightarrow> jsstring \<Rightarrow> json io" where
  "createDatabase P creds projectId instanceName databaseName =
     request P creds
       (API_URLS_sql @ js ''/projects/'' @ projectId @ js ''/instances/'' @ instanceName @ js ''/databases'')
       (with_body ''POST''
          (JObj [(js ''name'', JStr databaseName)]))"

definition deleteDatabase ::
  "platform \<Rightarrow> tenant_credentials \<Rightarrow> jsstring \<Rightarrow> jsstring \<Rightarrow> jsstring \<Rightarrow> json io" where
  "deleteDatabase P creds projectId instanceName databaseName =
     request P creds
       (API_URLS_sql @ js ''/projects/'' @ projectId @ js ''/instances/'' @ instanceName @ js ''/databases/'' @ databaseName)
       (with_method ''DELETE'')"

definition listServiceAccounts ::
  "platform \<Rightarrow> tenant_credentials \<Rightarrow> jsstring \<Rightarrow> json io" where
  "listServiceAccounts P creds projectId =
     request P creds
       (API_URLS_iam @ js ''/projects/'' @ projectId @ js ''/serviceAccounts'')
       no_options"

definition getServiceAccount ::
  "platform \<Rightarrow> tenant_credentials \<Rightarrow> jsstring \<Rightarrow> jsstring \<Rightarrow> json io" where
  "getServiceAccount P creds projectId email =
     request P creds
       (API_URLS_iam @ js ''/projects/'' @ projectId @ js ''/serviceAccounts/'' @ email)
       no_options"

definition createServiceAccount ::
  "platform \<Rightarrow> tenant_credentials \<Rightarrow> jsstring \<Rightarrow> jsstring \<Rightarrow> jsstring option \<Rightarrow> json io" where
  "createServiceAccount P creds projectId accountId displayName =
     request P creds
       (API_URLS_iam @ js ''/projects/'' @ projectId @ js ''/serviceAccounts'')
       (with_body ''POST''
          (JObj [(js ''accountId'', JStr accountId),
                (js ''serviceAccount'', JObj [(js ''displayName'', opt_str displayName)])]))"

definition deleteServiceAccount ::
  "platform \<Rightarrow> tenant_credentials \<Rightarrow> jsstring \<Rightarrow> jsstring \<Rightarrow> json io" where
  "deleteServiceAccount P creds projectId email =
     io_bind (request P creds
         (API_URLS_iam @ js ''/projects/'' @ projectId @ js ''/serviceAccounts/'' @ email)
         (with_method ''DELETE''))
       (\<lambda>r. io_return JUndefined)"

definition getProjectIamPolicy ::
  "platform \<Rightarrow> tenant_credentials \<Rightarrow> jsstring \<Rightarrow> json io" where
  "getProjectIamPolicy P creds projectId =
     request P creds
       (js ''https://cloudresourcemanager.googleapis.com/v1/projects/'' @ projectId @ js '':getIamPolicy'')
       (with_body ''POST''
          (JObj []))"

definition setProjectIamPolicy ::
  "platform \<Rightarrow> tenant_credentials \<Rightarrow> jsstring \<Rightarrow> json \<Rightarrow> json io" where
  "setProjectIamPolicy P creds projectId policy =
     request P creds
       (js ''https://cloudresourcemanager.googleapis.com/v1/projects/'' @ projectId @ js '':setIamPolicy'')
       (with_body ''POST''
          (JObj [(js ''policy'', policy)]))"

definition listRoles :: "platform \<Rightarrow> tenant_credentials \<Rightarrow> jsstring option \<Rightarrow> json io" where
  "listRoles P creds projectId =
     (case projectId of
        None \<Rightarrow> request P creds (API_URLS_iam @ js ''/roles'') no_options
      | Some p \<Rightarrow>
          if p = [] then request P creds (API_URLS_iam @ js ''/roles'') no_options
          else request P creds (API_URLS_iam @ js ''/projects/'' @ p @ js ''/roles'') no_options)"

definition listSecrets ::
  "platform \<Rightarrow> tenant_credentials \<Rightarrow> jsstring \<Rightarrow> json io" where
  "listSecrets P creds projectId =
     request P creds
       (API_URLS_secretmanager @ js ''/projects/'' @ projectId @ js ''/secrets'')
       no_options"

definition getSecret ::
  "platform \<Rightarrow> tenant_credentials \<Rightarrow> jsstring \<Rightarrow> jsstring \<Rightarrow> json io" where
  "getSecret P creds projectId secretName =
     request P creds
       (API_URLS_secretmanager @ js ''/projects/'' @ projectId @ js ''/secrets/'' @ secretName)
       no_options"

definition createSecret ::
  "platform \<Rightarrow> tenant_credentials \<Rightarrow> jsstring \<Rightarrow> jsstring \<Rightarrow> json \<Rightarrow> json io" where
  "createSecret P creds projectId secretId replication =
     request P creds
       (API_URLS_secretmanager @ js ''/projects/'' @ projectId @ js ''/secrets?secretId='' @ secretId)
       (with_body ''POST''
          (JObj [(js ''replication'', js_or replication (JObj [(js ''automatic'', JObj [])]))]))"

definition deleteSecret ::
  "platform \<Rightarrow> tenant_credentials \<Rightarrow> jsstring \<Rightarrow> jsstring \<Rightarrow> json io" where
  "deleteSecret P creds projectId secretName =
     io_bind (request P creds
         (API_URLS_secretmanager @ js ''/projects/'' @ projectId @ js ''/secrets/'' @ secretName)
         (with_method ''DELETE''))
       (\<lambda>r. io_return JUndefined)"

definition listSecretVersions ::
  "platform \<Rightarrow> tenant_credentials \<Rightarrow> jsstring \<Rightarrow> jsstring \<Rightarrow> json io" where
  "listSecretVersions P creds projectId secretName =
     request P creds
       (API_URLS_secretmanager @ js ''/projects/'' @ projectId @ js ''/secrets/'' @ secretName @ js ''/versions'')
       no_options"

definition accessSecretVersion ::
  "platform \<Rightarrow> tenant_credentials \<Rightarrow> jsstring \<Rightarrow> jsstring \<Rightarrow> jsstring option \<Rightarrow> json io" where
  "accessSecretVersion P creds projectId secretName version =
     request P creds
       (API_URLS_secretmanager @ js ''/projects/'' @ projectId @ js ''/secrets/'' @ secretName
        @ js ''/versions/'' @ (case version of None \<Rightarrow> js ''latest'' | Some v \<Rightarrow> v)
        @ js '':access'')
       no_options"

definition addSecretVersion ::
  "platform \<Rightarrow> tenant_credentials \<Rightarrow> jsstring \<Rightarrow> jsstring \<Rightarrow> jsstring \<Rightarrow> json io" where
  "addSecretVersion P creds projectId secretName payload =
     io_bind (io_lift (btoa payload))
       (\<lambda>encoded.
          request P creds
            (API_URLS_secretmanager @ js ''/projects/'' @ projectId @ js ''/secrets/'' @ secretName
             @ js '':addVersion'')
            (with_body ''POST'' (JObj [(js ''payload'', JObj [(js ''data'', JStr encoded)])])))"

definition listManagedZones ::
  "platform \<Rightarrow> tenant_credentials \<Rightarrow> jsstring \<Rightarrow> json io" where
  "listManagedZones P creds projectId =
     request P creds
       (API_URLS_dns @ js ''/projects/'' @ projectId @ js ''/managedZones'')
       no_options"

definition getManagedZone ::
  "platform \<Rightarrow> tenant_credentials \<Rightarrow> jsstring \<Rightarrow> jsstring \<Rightarrow> json io" where
  "getManagedZone P creds projectId zoneName =
     request P creds
       (API_URLS_dns @ js ''/projects/'' @ projectId @ js ''/managedZones/'' @ zoneName)
       no_options"

definition createManagedZone ::
  "platform \<Rightarrow> tenant_credentials \<Rightarrow> jsstring \<Rightarrow> json \<Rightarrow> json io" where
  "createManagedZone P creds projectId zone =
     request P creds
       (API_URLS_dns @ js ''/projects/'' @ projectId @ js ''/managedZones'')
       (with_body ''POST''
          (zone))"

definition deleteManagedZone ::
  "platform \<Rightarrow> tenant_credentials \<Rightarrow> jsstring \<Rightarrow> jsstring \<Rightarrow> json io" where
  "deleteManagedZone P creds projectId zoneName =
     io_bind (request P creds
         (API_URLS_dns @ js ''/projects/'' @ projectId @ js ''/managedZones/'' @ zoneName)
         (with_method ''DELETE''))
       (\<lambda>r. io_return JUndefined)"

definition listResourceRecordSets ::
  "platform \<Rightarrow> tenant_credentials \<Rightarrow> jsstring \<Rightarrow> jsstring \<Rightarrow> json io" where
  "listResourceRecordSets P creds projectId zoneName =
     request P creds
       (API_URLS_dns @ js ''/projects/'' @ projectId @ js ''/managedZones/'' @ zoneName @ js ''/rrsets'')
       no_options"

definition createResourceRecordSet ::
  "platform \<Rightarrow> tenant_credentials \<Rightarrow> jsstring \<Rightarrow> jsstring \<Rightarrow> json \<Rightarrow> json io" where
  "createResourceRecordSet P creds projectId zoneName rrset =
     request P creds
       (API_URLS_dns @ js ''/projects/'' @ projectId @ js ''/managedZones/'' @ zoneName @ js ''/rrsets'')
       (with_body ''POST''
          (rrset))"

definition deleteResourceRecordSet ::
  "platform \<Rightarrow> tenant_credentials \<Rightarrow> jsstring \<Rightarrow> jsstring \<Rightarrow> jsstring \<Rightarrow> jsstring \<Rightarrow> json io" where
  "deleteResourceRecordSet P creds projectId zoneName name type =
     io_bind (request P creds
         (API_URLS_dns @ js ''/projects/'' @ projectId @ js ''/managedZones/'' @ zoneName @ js ''/rrsets/'' @ name @ js ''/'' @ type)
         (with_method ''DELETE''))
       (\<lambda>r. io_return JUndefined)"

definition listClusters ::
  "platform \<Rightarrow> tenant_credentials \<Rightarrow> jsstring \<Rightarrow> jsstring \<Rightarrow> json io" where
  "listClusters P creds projectId location =
     request P creds
       (API_URLS_container @ js ''/projects/'' @ projectId @ js ''/locations/'' @ location @ js ''/clusters'')
       no_options"

definition getCluster ::
  "platform \<Rightarrow> tenant_credentials \<Rightarrow> jsstring \<Rightarrow> jsstring \<Rightarrow> jsstring \<Rightarrow> json io" where
  "getCluster P creds projectId location clusterName =
     request P creds
       (API_URLS_container @ js ''/projects/'' @ projectId @ js ''/locations/'' @ location @ js ''/clusters/'' @ clusterName)
       no_options"

definition deleteCluster ::
  "platform \<Rightarrow> tenant_credentials \<Rightarrow> jsstring \<Rightarrow> jsstring \<Rightarrow> jsstring \<Rightarrow> json io" where
  "deleteCluster P creds projectId location clusterName =
     request P creds
       (API_URLS_container @ js ''/projects/'' @ projectId @ js ''/locations/'' @ location @ js ''/clusters/'' @ clusterName)
       (with_method ''DELETE'')"

definition listNodePools ::
  "platform \<Rightarrow> tenant_credentials \<Rightarrow> jsstring \<Rightarrow> jsstring \<Rightarrow> jsstring \<Rightarrow> json io" where
  "listNodePools P creds projectId location clusterName =
     request P creds
       (API_URLS_container @ js ''/projects/'' @ projectId @ js ''/locations/'' @ location @ js ''/clusters/'' @ clusterName @ js ''/nodePools'')
       no_options"

definition getNodePool ::
  "platform \<Rightarrow> tenant_credentials \<Rightarrow> jsstring \<Rightarrow> jsstring \<Rightarrow> jsstring \<Rightarrow> jsstring \<Rightarrow> json io" where
  "getNodePool P creds projectId location clusterName nodePoolName =
     request P creds
       (API_URLS_container @ js ''/projects/'' @ projectId @ js ''/locations/'' @ location @ js ''/clusters/'' @ clusterName @ js ''/nodePools/'' @ nodePoolName)
       no_options"

definition listLogEntries ::
  "platform \<Rightarrow> tenant_credentials \<Rightarrow> jsstring \<Rightarrow> jsstring option \<Rightarrow> int option \<Rightarrow> json io" where
  "listLogEntries P creds projectId filter' pageSize =
     request P creds
       (API_URLS_logging @ js ''/entries:list'')
       (with_body ''POST''
          (JObj [(js ''resourceNames'', JArr [JStr (js ''projects/'' @ projectId)]),
                (js ''filter'', opt_str filter'),
                (js ''pageSize'', JNum (case pageSize of None \<Rightarrow> 100 | Some n \<Rightarrow> n)),
                (js ''orderBy'', JStr (js ''timestamp desc''))]))"

definition writeLogEntries ::
  "platform \<Rightarrow> tenant_credentials \<Rightarrow> jsstring \<Rightarrow> jsstring \<Rightarrow> json \<Rightarrow> json io" where
  "writeLogEntries P creds projectId logName entries =
     io_bind (io_lift (encodeURIComponent logName))
       (\<lambda>encoded.
          io_bind (request P creds (API_URLS_logging @ js ''/entries:write'')
                     (with_body ''POST''
                        (JObj [(js ''logName'',
                                JStr (js ''projects/'' @ projectId @ js ''/logs/'' @ encoded)),
                               (js ''resource'', JObj [(js ''type'', JStr (js ''global''))]),
                               (js ''entries'', entries)])))
            (\<lambda>r. io_return JUndefined))"

definition listLogs ::
  "platform \<Rightarrow> tenant_credentials \<Rightarrow> jsstring \<Rightarrow> json io" where
  "listLogs P creds projectId =
     request P creds
       (API_URLS_logging @ js ''/projects/'' @ projectId @ js ''/logs'')
       no_options"

text \<open>The client operations, each applied to arbitrary arguments.\<close>

inductive client_operation ::
  "string \<Rightarrow> (platform \<Rightarrow> tenant_credentials \<Rightarrow> json io) \<Rightarrow> bool" where
  op_testConnection: "client_operation ''testConnection'' (\<lambda>P creds. testConnection P creds)"
| op_listInstances: "client_operation ''listInstances'' (\<lambda>P creds. listInstances P creds projectId zone)"
| op_getInstance: "client_operation ''getInstance'' (\<lambda>P creds. getInstance P creds projectId zone instanceName)"
| op_createInstance: "client_operation ''createInstance'' (\<lambda>P creds. createInstance P creds projectId zone instance)"
| op_deleteInstance: "client_operation ''deleteInstance'' (\<lambda>P creds. deleteInstance P creds projectId zone instanceName)"
| op_startInstance: "client_operation ''startInstance'' (\<lambda>P creds. startInstance P creds projectId zone instanceName)"
| op_stopInstance: "client_operation ''stopInstance'' (\<lambda>P creds. stopInstance P creds projectId zone instanceName)"
| op_resetInstance: "client_operation ''resetInstance'' (\<lambda>P creds. resetInstance P creds projectId zone instanceName)"
| op_listDisks: "client_operation ''listDisks'' (\<lambda>P creds. listDisks P creds projectId zone)"
| op_getDisk: "client_operation ''getDisk'' (\<lambda>P creds. getDisk P creds projectId zone diskName)"
| op_createDisk: "client_operation ''createDisk'' (\<lambda>P creds. createDisk P creds projectId zone disk)"
| op_deleteDisk: "client_operation ''deleteDisk'' (\<lambda>P creds. deleteDisk P creds projectId zone diskName)"
| op_resizeDisk: "client_operation ''resizeDisk'' (\<lambda>P creds. resizeDisk P creds projectId zone diskName sizeGb)"
| op_listNetworks: "client_operation ''listNetworks'' (\<lambda>P creds. listNetworks P creds projectId)"
| op_getNetwork: "client_operation ''getNetwork'' (\<lambda>P creds. getNetwork P creds projectId networkName)"
| op_createNetwork: "client_operation ''createNetwork'' (\<lambda>P creds. createNetwork P creds projectId network)"
| op_deleteNetwork: "client_operation ''deleteNetwork'' (\<lambda>P creds. deleteNetwork P creds projectId networkName)"
| op_listFirewalls: "client_operation ''listFirewalls'' (\<lambda>P creds. listFirewalls P creds projectId)"
| op_getFirewall: "client_operation ''getFirewall'' (\<lambda>P creds. getFirewall P creds projectId firewallName)"
| op_createFirewall: "client_operation ''createFirewall'' (\<lambda>P creds. createFirewall P creds projectId firewall)"
| op_deleteFirewall: "client_operation ''deleteFirewall'' (\<lambda>P creds. deleteFirewall P creds projectId firewallName)"
| op_listBuckets: "client_operation ''listBuckets'' (\<lambda>P creds. listBuckets P creds projectId)"
| op_getBucket: "client_operation ''getBucket'' (\<lambda>P creds. getBucket P creds bucketName)"
| op_createBucket: "client_operation ''createBucket'' (\<lambda>P creds. createBucket P creds projectId bucket)"
| op_deleteBucket: "client_operation ''deleteBucket'' (\<lambda>P creds. deleteBucket P creds bucketName)"
| op_listObjects: "client_operation ''listObjects'' (\<lambda>P creds. listObjects P creds bucketName prefix' maxResults)"
| op_getObject: "client_operation ''getObject'' (\<lambda>P creds. getObject P creds bucketName objectName)"
| op_deleteObject: "client_operation ''deleteObject'' (\<lambda>P creds. deleteObject P creds bucketName objectName)"
| op_copyObject: "client_operation ''copyObject'' (\<lambda>P creds. copyObject P creds sourceBucket sourceObject destBucket destObject)"
| op_listFunctions: "client_operation ''listFunctions'' (\<lambda>P creds. listFunctions P creds projectId location)"
| op_getFunction: "client_operation ''getFunction'' (\<lambda>P creds. getFunction P creds projectId location functionName)"
| op_deleteFunction: "client_operation ''deleteFunction'' (\<lambda>P creds. deleteFunction P creds projectId location functionName)"
| op_listCloudRunServices: "client_operation ''listCloudRunServices'' (\<lambda>P creds. listCloudRunServices P creds projectId location)"
| op_getCloudRunService: "client_operation ''getCloudRunService'' (\<lambda>P creds. getCloudRunService P creds projectId location serviceName)"
| op_deleteCloudRunService: "client_operation ''deleteCloudRunService'' (\<lambda>P creds. deleteCloudRunService P creds projectId location serviceName)"
| op_listDatasets: "client_operation ''listDatasets'' (\<lambda>P creds. listDatasets P creds projectId)"
| op_getDataset: "client_operation ''getDataset'' (\<lambda>P creds. getDataset P creds projectId datasetId)"
| op_createDataset: "client_operation ''createDataset'' (\<lambda>P creds. createDataset P creds projectId dataset)"
| op_deleteDataset: "client_operation ''deleteDataset'' (\<lambda>P creds. deleteDataset P creds projectId datasetId deleteContents)"
| op_listTables: "client_operation ''listTables'' (\<lambda>P creds. listTables P creds projectId datasetId)"
| op_getTable: "client_operation ''getTable'' (\<lambda>P creds. getTable P creds projectId datasetId tableId)"
| op_runQuery: "client_operation ''runQuery'' (\<lambda>P creds. runQuery P creds projectId query useLegacySql)"
| op_listTopics: "client_operation ''listTopics'' (\<lambda>P creds. listTopics P creds projectId)"
| op_getTopic: "client_operation ''getTopic'' (\<lambda>P creds. getTopic P creds projectId topicName)"
| op_createTopic: "client_operation ''createTopic'' (\<lambda>P creds. createTopic P creds projectId topicName)"
| op_deleteTopic: "client_operation ''deleteTopic'' (\<lambda>P creds. deleteTopic P creds projectId topicName)"
| op_publishMessage: "client_operation ''publishMessage'' (\<lambda>P creds. publishMessage P creds projectId topicName messages)"
| op_listSubscriptions: "client_operation ''listSubscriptions'' (\<lambda>P creds. listSubscriptions P creds projectId)"
| op_getSubscription: "client_operation ''getSubscription'' (\<lambda>P creds. getSubscription P creds projectId subscriptionName)"
| op_createSubscription: "client_operation ''createSubscription'' (\<lambda>P creds. createSubscription P creds projectId subscriptionName topicName)"
| op_deleteSubscription: "client_operation ''deleteSubscription'' (\<lambda>P creds. deleteSubscription P creds projectId subscriptionName)"
| op_pullMessages: "client_operation ''pullMessages'' (\<lambda>P creds. pullMessages P creds projectId subscriptionName maxMessages)"
| op_acknowledgeMessages: "client_operation ''acknowledgeMessages'' (\<lambda>P creds. acknowledgeMessages P creds projectId subscriptionName ackIds)"
| op_listSqlInstances: "client_operation ''listSqlInstances'' (\<lambda>P creds. listSqlInstances P creds projectId)"
| op_getSqlInstance: "client_operation ''getSqlInstance'' (\<lambda>P creds. getSqlInstance P creds projectId instanceName)"
| op_deleteSqlInstance: "client_operation ''deleteSqlInstance'' (\<lambda>P creds. deleteSqlInstance P creds projectId instanceName)"
| op_restartSqlInstance: "client_operation ''restartSqlInstance'' (\<lambda>P creds. restartSqlInstance P creds projectId instanceName)"
| op_listDatabases: "client_operation ''listDatabases'' (\<lambda>P creds. listDatabases P creds projectId instanceName)"
| op_getDatabase: "client_operation ''getDatabase'' (\<lambda>P creds. getDatabase P creds projectId instanceName databaseName)"
| op_createDatabase: "client_operation ''createDatabase'' (\<lambda>P creds. createDatabase P creds projectId instanceName databaseName)"
| op_deleteDatabase: "client_operation ''deleteDatabase'' (\<lambda>P creds. deleteDatabase P creds projectId instanceName databaseName)"
| op_listServiceAccounts: "client_operation ''listServiceAccounts'' (\<lambda>P creds. listServiceAccounts P creds projectId)"
| op_getServiceAccount: "client_operation ''getServiceAccount'' (\<lambda>P creds. getServiceAccount P creds projectId email)"
| op_createServiceAccount: "client_operation ''createServiceAccount'' (\<lambda>P creds. createServiceAccount P creds projectId accountId displayName)"
| op_deleteServiceAccount: "client_operation ''deleteServiceAccount'' (\<lambda>P creds. deleteServiceAccount P creds projectId email)"
| op_getProjectIamPolicy: "client_operation ''getProjectIamPolicy'' (\<lambda>P creds. getProjectIamPolicy P creds projectId)"
| op_setProjectIamPolicy: "client_operation ''setProjectIamPolicy'' (\<lambda>P creds. setProjectIamPolicy P creds projectId policy)"
| op_listRoles: "client_operation ''listRoles'' (\<lambda>P creds. listRoles P creds projectId)"
| op_listSecrets: "client_operation ''listSecrets'' (\<lambda>P creds. listSecrets P creds projectId)"
| op_getSecret: "client_operation ''getSecret'' (\<lambda>P creds. getSecret P creds projectId secretName)"
| op_createSecret: "client_operation ''createSecret'' (\<lambda>P creds. createSecret P creds projectId secretId replication)"
| op_deleteSecret: "client_operation ''deleteSecret'' (\<lambda>P creds. deleteSecret P creds projectId secretName)"
| op_listSecretVersions: "client_operation ''listSecretVersions'' (\<lambda>P creds. listSecretVersions P creds projectId secretName)"
| op_accessSecretVersion: "client_operation ''accessSecretVersion'' (\<lambda>P creds. accessSecretVersion P creds projectId secretName version)"
| op_addSecretVersion: "client_operation ''addSecretVersion'' (\<lambda>P creds. addSecretVersion P creds projectId secretName payload)"
| op_listManagedZones: "client_operation ''listManagedZones'' (\<lambda>P creds. listManagedZones P creds projectId)"
| op_getManagedZone: "client_operation ''getManagedZone'' (\<lambda>P creds. getManagedZone P creds projectId zoneName)"
| op_createManagedZone: "client_operation ''createManagedZone'' (\<lambda>P creds. createManagedZone P creds projectId zone)"
| op_deleteManagedZone: "client_operation ''deleteManagedZone'' (\<lambda>P creds. deleteManagedZone P creds projectId zoneName)"
| op_listResourceRecordSets: "client_operation ''listResourceRecordSets'' (\<lambda>P creds. listResourceRecordSets P creds projectId zoneName)"
| op_createResourceRecordSet: "client_operation ''createResourceRecordSet'' (\<lambda>P creds. createResourceRecordSet P creds projectId zoneName rrset)"
| op_deleteResourceRecordSet: "client_operation ''deleteResourceRecordSet'' (\<lambda>P creds. deleteResourceRecordSet P creds projectId zoneName name type)"
| op_listClusters: "client_operation ''listClusters'' (\<lambda>P creds. listClusters P creds projectId location)"
| op_getCluster: "client_operation ''getCluster'' (\<lambda>P creds. getCluster P creds projectId location clusterName)"
| op_deleteCluster: "client_operation ''deleteCluster'' (\<lambda>P creds. deleteCluster P creds projectId location clusterName)"
| op_listNodePools: "client_operation ''listNodePools'' (\<lambda>P creds. listNodePools P creds projectId location clusterName)"
| op_getNodePool: "client_operation ''getNodePool'' (\<lambda>P creds. getNodePool P creds projectId location clusterName nodePoolName)"
| op_listLogEntries: "client_operation ''listLogEntries'' (\<lambda>P creds. listLogEntries P creds projectId filter' pageSize)"
| op_writeLogEntries: "client_operation ''writeLogEntries'' (\<lambda>P creds. writeLogEntries P creds projectId logName entries)"
| op_listLogs: "client_operation ''listLogs'' (\<lambda>P creds. listLogs P creds projectId)"

section \<open>The tools (tools/*.ts, index.ts)\<close>

text \<open>
  A handler is modelled after its arguments have passed the schema of the tool: a string is
  a \<open>jsstring\<close>, an optional argument an option, an argument with a default value the
  value itself, a record a list of pairs. The client that the handlers share holds nothing
  but the tenant credentials, which are passed in its place.
\<close>

definition opt_record :: "(jsstring \<times> jsstring) list option \<Rightarrow> json" where
  "opt_record r = (case r of None \<Rightarrow> JUndefined | Some kvs \<Rightarrow> JObj (map (\<lambda>(k, v). (k, JStr v)) kvs))"

definition bindings_json :: "(jsstring \<times> jsstring list) list \<Rightarrow> json" where
  "bindings_json bindings =
     JArr (map (\<lambda>(role, members). JObj [(js ''role'', JStr role),
                                          (js ''members'', JArr (map JStr members))]) bindings)"

text \<open>\<open>Array.prototype.map\<close> with a callback that may throw: the first error ends it.\<close>

fun map_throwing :: "('a \<Rightarrow> thrown + 'b) \<Rightarrow> 'a list \<Rightarrow> thrown + 'b list" where
  "map_throwing f [] = Inr []"
| "map_throwing f (x # xs) =
     (case f x of
        Inl e \<Rightarrow> Inl e
      | Inr y \<Rightarrow> (case map_throwing f xs of Inl e \<Rightarrow> Inl e | Inr ys \<Rightarrow> Inr (y # ys)))"

text \<open>The callback of \<open>gcloud_pull_messages\<close> that decodes one received message.\<close>

definition decode_message :: "json \<Rightarrow> thrown + json" where
  "decode_message rm =
     (case get_prop rm (js ''ackId'') of
        None \<Rightarrow> Inl TypeError
      | Some ackId \<Rightarrow>
          (let message = own_prop rm (js ''message'');
               d = get_prop_opt message (js ''data'')
           in (case (if truthy d then atob (String d) else Inr []) of
                 Inl e \<Rightarrow> Inl e
               | Inr decoded \<Rightarrow>
                   Inr (JObj [(js ''ackId'', ackId),
                              (js ''messageId'', get_prop_opt message (js ''messageId'')),
                              (js ''data'', if truthy d then JStr decoded else JUndefined),
                              (js ''attributes'', get_prop_opt message (js ''attributes'')),
                              (js ''publishTime'', get_prop_opt message (js ''publishTime''))]))))"

definition gcloud_list_instances ::
  "platform \<Rightarrow> tenant_credentials \<Rightarrow> jsstring \<Rightarrow> jsstring \<Rightarrow> envelope io" where
  "gcloud_list_instances P creds projectId zone =
     io_catch
       (io_bind (listInstances P creds projectId zone)
         (\<lambda>result.
            io_bind (io_prop result (js ''items''))
              (\<lambda>v. io_lift (formatResponse (js_or v (JArr [])) Json (Some (js ''instances''))))))
       (\<lambda>error. io_return (formatError (error_object P error)))"

definition gcloud_get_instance ::
  "platform \<Rightarrow> tenant_credentials \<Rightarrow> jsstring \<Rightarrow> jsstring \<Rightarrow> jsstring \<Rightarrow> envelope io" where
  "gcloud_get_instance P creds projectId zone instanceName =
     io_catch
       (io_bind (getInstance P creds projectId zone instanceName)
         (\<lambda>instance. io_lift (formatResponse instance Json (Some (js ''instance'')))))
       (\<lambda>error. io_return (formatError (error_object P error)))"

definition gcloud_start_instance ::
  "platform \<Rightarrow> tenant_credentials \<Rightarrow> jsstring \<Rightarrow> jsstring \<Rightarrow> jsstring \<Rightarrow> envelope io" where
  "gcloud_start_instance P creds projectId zone instanceName =
     io_catch
       (io_bind (startInstance P creds projectId zone instanceName)
         (\<lambda>operation.
            io_lift (formatResponse
                       (JObj [(js ''success'', JBool True),
                              (js ''message'', JStr (js ''Instance '' @ instanceName @ js '' start initiated'')),
                              (js ''operation'', operation)])
                       Json None)))
       (\<lambda>error. io_return (formatError (error_object P error)))"

definition gcloud_stop_instance ::
  "platform \<Rightarrow> tenant_credentials \<Rightarrow> jsstring \<Rightarrow> jsstring \<Rightarrow> jsstring \<Rightarrow> envelope io" where
  "gcloud_stop_instance P creds projectId zone instanceName =
     io_catch
       (io_bind (stopInstance P creds projectId zone instanceName)
         (\<lambda>operation.
            io_lift (formatResponse
                       (JObj [(js ''success'', JBool True),
                              (js ''message'', JStr (js ''Instance '' @ instanceName @ js '' stop initiated'')),
                              (js ''operation'', operation)])
                       Json None)))
       (\<lambda>error. io_return (formatError (error_object P error)))"

definition gcloud_reset_instance ::
  "platform \<Rightarrow> tenant_credentials \<Rightarrow> jsstring \<Rightarrow> jsstring \<Rightarrow> jsstring \<Rightarrow> envelope io" where
  "gcloud_reset_instance P creds projectId zone instanceName =
     io_catch
       (io_bind (resetInstance P creds projectId zone instanceName)
         (\<lambda>operation.
            io_lift (formatResponse
                       (JObj [(js ''success'', JBool True),
                              (js ''message'', JStr (js ''Instance '' @ instanceName @ js '' reset initiated'')),
                              (js ''operation'', operation)])
                       Json None)))
       (\<lambda>error. io_return (formatError (error_object P error)))"

definition gcloud_delete_instance ::
  "platform \<Rightarrow> tenant_credentials \<Rightarrow> jsstring \<Rightarrow> jsstring \<Rightarrow> jsstring \<Rightarrow> envelope io" where
  "gcloud_delete_instance P creds projectId zone instanceName =
     io_catch
       (io_bind (deleteInstance P creds projectId zone instanceName)
         (\<lambda>operation.
            io_lift (formatResponse
                       (JObj [(js ''success'', JBool True),
                              (js ''message'', JStr (js ''Instance '' @ instanceName @ js '' deletion initiated'')),
                              (js ''operation'', operation)])
                       Json None)))
       (\<lambda>error. io_return (formatError (error_object P error)))"

definition gcloud_list_disks ::
  "platform \<Rightarrow> tenant_credentials \<Rightarrow> jsstring \<Rightarrow> jsstring \<Rightarrow> envelope io" where
  "gcloud_list_disks P creds projectId zone =
     io_catch
       (io_bind (listDisks P creds projectId zone)
         (\<lambda>result.
            io_bind (io_prop result (js ''items''))
              (\<lambda>v. io_lift (formatResponse (js_or v (JArr [])) Json (Some (js ''disks''))))))
       (\<lambda>error. io_return (formatError (error_object P error)))"

definition gcloud_get_disk ::
  "platform \<Rightarrow> tenant_credentials \<Rightarrow> jsstring \<Rightarrow> jsstring \<Rightarrow> jsstring \<Rightarrow> envelope io" where
  "gcloud_get_disk P creds projectId zone diskName =
     io_catch
       (io_bind (getDisk P creds projectId zone diskName)
         (\<lambda>disk. io_lift (formatResponse disk Json (Some (js ''disk'')))))
       (\<lambda>error. io_return (formatError (error_object P error)))"

definition gcloud_create_disk ::
  "platform \<Rightarrow> tenant_credentials \<Rightarrow> jsstring \<Rightarrow> jsstring \<Rightarrow> jsstring \<Rightarrow> jsstring \<Rightarrow> jsstring option \<Rightarrow> jsstring option \<Rightarrow> envelope io" where
  "gcloud_create_disk P creds projectId zone name sizeGb type sourceImage =
     io_catch
       (io_bind (createDisk P creds projectId zone 
            (JObj [(js ''name'', JStr name),
                  (js ''sizeGb'', JStr sizeGb),
                  (js ''type'', opt_str type),
                  (js ''sourceImage'', opt_str sourceImage)]))
         (\<lambda>operation.
            io_lift (formatResponse
                       (JObj [(js ''success'', JBool True),
                              (js ''message'', JStr (js ''Disk '' @ name @ js '' creation initiated'')),
                              (js ''operation'', operation)])
                       Json None)))
       (\<lambda>error. io_return (formatError (error_object P error)))"

definition gcloud_delete_disk ::
  "platform \<Rightarrow> tenant_credentials \<Rightarrow> jsstring \<Rightarrow> jsstring \<Rightarrow> jsstring \<Rightarrow> envelope io" where
  "gcloud_delete_disk P creds projectId zone diskName =
     io_catch
       (io_bind (deleteDisk P creds projectId zone diskName)
         (\<lambda>operation.
            io_lift (formatResponse
                       (JObj [(js ''success'', JBool True),
                              (js ''message'', JStr (js ''Disk '' @ diskName @ js '' deletion initiated'')),
                              (js ''operation'', operation)])
                       Json None)))
       (\<lambda>error. io_return (formatError (error_object P error)))"

definition gcloud_resize_disk ::
  "platform \<Rightarrow> tenant_credentials \<Rightarrow> jsstring \<Rightarrow> jsstring \<Rightarrow> jsstring \<Rightarrow> jsstring \<Rightarrow> envelope io" where
  "gcloud_resize_disk P creds projectId zone diskName sizeGb =
     io_catch
       (io_bind (resizeDisk P creds projectId zone diskName sizeGb)
         (\<lambda>operation.
            io_lift (formatResponse
                       (JObj [(js ''success'', JBool True),
                              (js ''message'', JStr (js ''Disk '' @ diskName @ js '' resize initiated'')),
                              (js ''operation'', operation)])
                       Json None)))
       (\<lambda>error. io_return (formatError (error_object P error)))"

definition gcloud_list_networks ::
  "platform \<Rightarrow> tenant_credentials \<Rightarrow> jsstring \<Rightarrow> envelope io" where
  "gcloud_list_networks P creds projectId =
     io_catch
       (io_bind (listNetworks P creds projectId)
         (\<lambda>result.
            io_bind (io_prop result (js ''items''))
              (\<lambda>v. io_lift (formatResponse (js_or v (JArr [])) Json (Some (js ''networks''))))))
       (\<lambda>error. io_return (formatError (error_object P error)))"

definition gcloud_get_network ::
  "platform \<Rightarrow> tenant_credentials \<Rightarrow> jsstring \<Rightarrow> jsstring \<Rightarrow> envelope io" where
  "gcloud_get_network P creds projectId networkName =
     io_catch
       (io_bind (getNetwork P creds projectId networkName)
         (\<lambda>network. io_lift (formatResponse network Json (Some (js ''network'')))))
       (\<lambda>error. io_return (formatError (error_object P error)))"

definition gcloud_create_network ::
  "platform \<Rightarrow> tenant_credentials \<Rightarrow> jsstring \<Rightarrow> jsstring \<Rightarrow> bool \<Rightarrow> envelope io" where
  "gcloud_create_network P creds projectId name autoCreateSubnetworks =
     io_catch
       (io_bind (createNetwork P creds projectId 
            (JObj [(js ''name'', JStr name),
                  (js ''autoCreateSubnetworks'', JBool autoCreateSubnetworks)]))
         (\<lambda>operation.
            io_lift (formatResponse
                       (JObj [(js ''success'', JBool True),
                              (js ''message'', JStr (js ''Network '' @ name @ js '' creation initiated'')),
                              (js ''operation'', operation)])
                       Json None)))
       (\<lambda>error. io_return (formatError (error_object P error)))"

definition gcloud_delete_network ::
  "platform \<Rightarrow> tenant_credentials \<Rightarrow> jsstring \<Rightarrow> jsstring \<Rightarrow> envelope io" where
  "gcloud_delete_network P creds projectId networkName =
     io_catch
       (io_bind (deleteNetwork P creds projectId networkName)
         (\<lambda>operation.
            io_lift (formatResponse
                       (JObj [(js ''success'', JBool True),
                              (js ''message'', JStr (js ''Network '' @ networkName @ js '' deletion initiated'')),
                              (js ''operation'', operation)])
                       Json None)))
       (\<lambda>error. io_return (formatError (error_object P error)))"

definition gcloud_list_firewalls ::
  "platform \<Rightarrow> tenant_credentials \<Rightarrow> jsstring \<Rightarrow> envelope io" where
  "gcloud_list_firewalls P creds projectId =
     io_catch
       (io_bind (listFirewalls P creds projectId)
         (\<lambda>result.
            io_bind (io_prop result (js ''items''))
              (\<lambda>v. io_lift (formatResponse (js_or v (JArr [])) Json (Some (js ''firewalls''))))))
       (\<lambda>error. io_return (formatError (error_object P error)))"

definition gcloud_get_firewall ::
  "platform \<Rightarrow> tenant_credentials \<Rightarrow> jsstring \<Rightarrow> jsstring \<Rightarrow> envelope io" where
  "gcloud_get_firewall P creds projectId firewallName =
     io_catch
       (io_bind (getFirewall P creds projectId firewallName)
         (\<lambda>firewall. io_lift (formatResponse firewall Json (Some (js ''firewall'')))))
       (\<lambda>error. io_return (formatError (error_object P error)))"

definition gcloud_delete_firewall ::
  "platform \<Rightarrow> tenant_credentials \<Rightarrow> jsstring \<Rightarrow> jsstring \<Rightarrow> envelope io" where
  "gcloud_delete_firewall P creds projectId firewallName =
     io_catch
       (io_bind (deleteFirewall P creds projectId firewallName)
         (\<lambda>operation.
            io_lift (formatResponse
                       (JObj [(js ''success'', JBool True),
                              (js ''message'', JStr (js ''Firewall '' @ firewallName @ js '' deletion initiated'')),
                              (js ''operation'', operation)])
                       Json None)))
       (\<lambda>error. io_return (formatError (error_object P error)))"

definition gcloud_list_buckets ::
  "platform \<Rightarrow> tenant_credentials \<Rightarrow> jsstring \<Rightarrow> envelope io" where
  "gcloud_list_buckets P creds projectId =
     io_catch
       (io_bind (listBuckets P creds projectId)
         (\<lambda>result.
            io_bind (io_prop result (js ''items''))
              (\<lambda>v. io_lift (formatResponse (js_or v (JArr [])) Json (Some (js ''buckets''))))))
       (\<lambda>error. io_return (formatError (error_object P error)))"

definition gcloud_get_bucket ::
  "platform \<Rightarrow> tenant_credentials \<Rightarrow> jsstring \<Rightarrow> envelope io" where
  "gcloud_get_bucket P creds bucketName =
     io_catch
       (io_bind (getBucket P creds bucketName)
         (\<lambda>bucket. io_lift (formatResponse bucket Json (Some (js ''bucket'')))))
       (\<lambda>error. io_return (formatError (error_object P error)))"

definition gcloud_create_bucket ::
  "platform \<Rightarrow> tenant_credentials \<Rightarrow> jsstring \<Rightarrow> jsstring \<Rightarrow> jsstring option \<Rightarrow> jsstring option \<Rightarrow> envelope io" where
  "gcloud_create_bucket P creds projectId name location storageClass =
     io_catch
       (io_bind (createBucket P creds projectId 
            (JObj [(js ''name'', JStr name),
                  (js ''location'', opt_str location),
                  (js ''storageClass'', opt_str storageClass)]))
         (\<lambda>bucket.
            io_lift (formatResponse
                       (JObj [(js ''success'', JBool True),
                              (js ''message'', JStr (js ''Bucket '' @ name @ js '' created'')),
                              (js ''bucket'', bucket)])
                       Json None)))
       (\<lambda>error. io_return (formatError (error_object P error)))"

definition gcloud_delete_bucket ::
  "platform \<Rightarrow> tenant_credentials \<Rightarrow> jsstring \<Rightarrow> envelope io" where
  "gcloud_delete_bucket P creds bucketName =
     io_catch
       (io_bind (deleteBucket P creds bucketName)
         (\<lambda>r.
            io_lift (formatResponse
                       (JObj [(js ''success'', JBool True),
                              (js ''message'', JStr (js ''Bucket '' @ bucketName @ js '' deleted''))])
                       Json None)))
       (\<lambda>error. io_return (formatError (error_object P error)))"

definition gcloud_list_objects ::
  "platform \<Rightarrow> tenant_credentials \<Rightarrow> jsstring \<Rightarrow> jsstring option \<Rightarrow> int option \<Rightarrow> envelope io" where
  "gcloud_list_objects P creds bucketName prefix' maxResults =
     io_catch
       (io_bind (listObjects P creds bucketName prefix' maxResults)
         (\<lambda>result.
            io_bind (io_prop result (js ''items''))
              (\<lambda>v. io_lift (formatResponse (js_or v (JArr [])) Json (Some (js ''objects''))))))
       (\<lambda>error. io_return (formatError (error_object P error)))"

definition gcloud_get_object ::
  "platform \<Rightarrow> tenant_credentials \<Rightarrow> jsstring \<Rightarrow> jsstring \<Rightarrow> envelope io" where
  "gcloud_get_object P creds bucketName objectName =
     io_catch
       (io_bind (getObject P creds bucketName objectName)
         (\<lambda>object. io_lift (formatResponse object Json (Some (js ''object'')))))
       (\<lambda>error. io_return (formatError (error_object P error)))"

definition gcloud_delete_object ::
  "platform \<Rightarrow> tenant_credentials \<Rightarrow> jsstring \<Rightarrow> jsstring \<Rightarrow> envelope io" where
  "gcloud_delete_object P creds bucketName objectName =
     io_catch
       (io_bind (deleteObject P creds bucketName objectName)
         (\<lambda>r.
            io_lift (formatResponse
                       (JObj [(js ''success'', JBool True),
                              (js ''message'', JStr (js ''Object '' @ objectName @ js '' deleted from '' @ bucketName))])
                       Json None)))
       (\<lambda>error. io_return (formatError (error_object P error)))"

definition gcloud_copy_object ::
  "platform \<Rightarrow> tenant_credentials \<Rightarrow> jsstring \<Rightarrow> jsstring \<Rightarrow> jsstring \<Rightarrow> jsstring \<Rightarrow> envelope io" where
  "gcloud_copy_object P creds sourceBucket sourceObject destBucket destObject =
     io_catch
       (io_bind (copyObject P creds sourceBucket sourceObject destBucket destObject)
         (\<lambda>object.
            io_lift (formatResponse
                       (JObj [(js ''success'', JBool True),
                              (js ''message'', JStr (js ''Object copied successfully'')),
                              (js ''object'', object)])
                       Json None)))
       (\<lambda>error. io_return (formatError (error_object P error)))"

definition gcloud_list_functions ::
  "platform \<Rightarrow> tenant_credentials \<Rightarrow> jsstring \<Rightarrow> jsstring \<Rightarrow> envelope io" where
  "gcloud_list_functions P creds projectId location =
     io_catch
       (io_bind (listFunctions P creds projectId location)
         (\<lambda>result.
            io_bind (io_prop result (js ''functions''))
              (\<lambda>v. io_lift (formatResponse (js_or v (JArr [])) Json (Some (js ''functions''))))))
       (\<lambda>error. io_return (formatError (error_object P error)))"

definition gcloud_get_function ::
  "platform \<Rightarrow> tenant_credentials \<Rightarrow> jsstring \<Rightarrow> jsstring \<Rightarrow> jsstring \<Rightarrow> envelope io" where
  "gcloud_get_function P creds projectId location functionName =
     io_catch
       (io_bind (getFunction P creds projectId location functionName)
         (\<lambda>func. io_lift (formatResponse func Json (Some (js ''function'')))))
       (\<lambda>error. io_return (formatError (error_object P error)))"

definition gcloud_delete_function ::
  "platform \<Rightarrow> tenant_credentials \<Rightarrow> jsstring \<Rightarrow> jsstring \<Rightarrow> jsstring \<Rightarrow> envelope io" where
  "gcloud_delete_function P creds projectId location functionName =
     io_catch
       (io_bind (deleteFunction P creds projectId location functionName)
         (\<lambda>operation.
            io_lift (formatResponse
                       (JObj [(js ''success'', JBool True),
                              (js ''message'', JStr (js ''Function '' @ functionName @ js '' deletion initiated'')),
                              (js ''operation'', operation)])
                       Json None)))
       (\<lambda>error. io_return (formatError (error_object P error)))"

definition gcloud_list_cloud_run_services ::
  "platform \<Rightarrow> tenant_credentials \<Rightarrow> jsstring \<Rightarrow> jsstring \<Rightarrow> envelope io" where
  "gcloud_list_cloud_run_services P creds projectId location =
     io_catch
       (io_bind (listCloudRunServices P creds projectId location)
         (\<lambda>result.
            io_bind (io_prop result (js ''services''))
              (\<lambda>v. io_lift (formatResponse (js_or v (JArr [])) Json (Some (js ''services''))))))
       (\<lambda>error. io_return (formatError (error_object P error)))"

definition gcloud_get_cloud_run_service ::
  "platform \<Rightarrow> tenant_credentials \<Rightarrow> jsstring \<Rightarrow> jsstring \<Rightarrow> jsstring \<Rightarrow> envelope io" where
  "gcloud_get_cloud_run_service P creds projectId location serviceName =
     io_catch
       (io_bind (getCloudRunService P creds projectId location serviceName)
         (\<lambda>service. io_lift (formatResponse service Json (Some (js ''service'')))))
       (\<lambda>error. io_return (formatError (error_object P error)))"

definition gcloud_delete_cloud_run_service ::
  "platform \<Rightarrow> tenant_credentials \<Rightarrow> jsstring \<Rightarrow> jsstring \<Rightarrow> jsstring \<Rightarrow> envelope io" where
  "gcloud_delete_cloud_run_service P creds projectId location serviceName =
     io_catch
       (io_bind (deleteCloudRunService P creds projectId location serviceName)
         (\<lambda>operation.
            io_lift (formatResponse
                       (JObj [(js ''success'', JBool True),
                              (js ''message'', JStr (js ''Service '' @ serviceName @ js '' deletion initiated'')),
                              (js ''operation'', operation)])
                       Json None)))
       (\<lambda>error. io_return (formatError (error_object P error)))"

definition gcloud_list_datasets ::
  "platform \<Rightarrow> tenant_credentials \<Rightarrow> jsstring \<Rightarrow> envelope io" where
  "gcloud_list_datasets P creds projectId =
     io_catch
       (io_bind (listDatasets P creds projectId)
         (\<lambda>result.
            io_bind (io_prop result (js ''datasets''))
              (\<lambda>v. io_lift (formatResponse (js_or v (JArr [])) Json (Some (js ''datasets''))))))
       (\<lambda>error. io_return (formatError (error_object P error)))"

definition gcloud_get_dataset ::
  "platform \<Rightarrow> tenant_credentials \<Rightarrow> jsstring \<Rightarrow> jsstring \<Rightarrow> envelope io" where
  "gcloud_get_dataset P creds projectId datasetId =
     io_catch
       (io_bind (getDataset P creds projectId datasetId)
         (\<lambda>dataset. io_lift (formatResponse dataset Json (Some (js ''dataset'')))))
       (\<lambda>error. io_return (formatError (error_object P error)))"

definition gcloud_create_dataset ::
  "platform \<Rightarrow> tenant_credentials \<Rightarrow> jsstring \<Rightarrow> jsstring \<Rightarrow> jsstring option \<Rightarrow> envelope io" where
  "gcloud_create_dataset P creds projectId datasetId location =
     io_catch
       (io_bind (createDataset P creds projectId
                   (JObj [(js ''datasetReference'',
                           JObj [(js ''datasetId'', JStr datasetId),
                                 (js ''projectId'', JStr projectId)]),
                          (js ''location'', opt_str location)]))
         (\<lambda>dataset.
            io_lift (formatResponse
                       (JObj [(js ''success'', JBool True),
                              (js ''message'', JStr (js ''Dataset '' @ datasetId @ js '' created'')),
                              (js ''dataset'', dataset)])
                       Json None)))
       (\<lambda>error. io_return (formatError (error_object P error)))"

definition gcloud_delete_dataset ::
  "platform \<Rightarrow> tenant_credentials \<Rightarrow> jsstring \<Rightarrow> jsstring \<Rightarrow> bool \<Rightarrow> envelope io" where
  "gcloud_delete_dataset P creds projectId datasetId deleteContents =
     io_catch
       (io_bind (deleteDataset P creds projectId datasetId (Some deleteContents))
         (\<lambda>r.
            io_lift (formatResponse
                       (JObj [(js ''success'', JBool True),
                              (js ''message'', JStr (js ''Dataset '' @ datasetId @ js '' deleted''))])
                       Json None)))
       (\<lambda>error. io_return (formatError (error_object P error)))"

definition gcloud_list_tables ::
  "platform \<Rightarrow> tenant_credentials \<Rightarrow> jsstring \<Rightarrow> jsstring \<Rightarrow> envelope io" where
  "gcloud_list_tables P creds projectId datasetId =
     io_catch
       (io_bind (listTables P creds projectId datasetId)
         (\<lambda>result.
            io_bind (io_prop result (js ''tables''))
              (\<lambda>v. io_lift (formatResponse (js_or v (JArr [])) Json (Some (js ''tables''))))))
       (\<lambda>error. io_return (formatError (error_object P error)))"

definition gcloud_get_table ::
  "platform \<Rightarrow> tenant_credentials \<Rightarrow> jsstring \<Rightarrow> jsstring \<Rightarrow> jsstring \<Rightarrow> envelope io" where
  "gcloud_get_table P creds projectId datasetId tableId =
     io_catch
       (io_bind (getTable P creds projectId datasetId tableId)
         (\<lambda>table. io_lift (formatResponse table Json (Some (js ''table'')))))
       (\<lambda>error. io_return (formatError (error_object P error)))"

definition gcloud_bigquery_query ::
  "platform \<Rightarrow> tenant_credentials \<Rightarrow> jsstring \<Rightarrow> jsstring \<Rightarrow> bool \<Rightarrow> envelope io" where
  "gcloud_bigquery_query P creds projectId query useLegacySql =
     io_catch
       (io_bind (runQuery P creds projectId query (Some useLegacySql))
         (\<lambda>result. io_lift (formatResponse result Json (Some (js ''query_result'')))))
       (\<lambda>error. io_return (formatError (error_object P error)))"

definition gcloud_list_topics ::
  "platform \<Rightarrow> tenant_credentials \<Rightarrow> jsstring \<Rightarrow> envelope io" where
  "gcloud_list_topics P creds projectId =
     io_catch
       (io_bind (listTopics P creds projectId)
         (\<lambda>result.
            io_bind (io_prop result (js ''topics''))
              (\<lambda>v. io_lift (formatResponse (js_or v (JArr [])) Json (Some (js ''topics''))))))
       (\<lambda>error. io_return (formatError (error_object P error)))"

definition gcloud_get_topic ::
  "platform \<Rightarrow> tenant_credentials \<Rightarrow> jsstring \<Rightarrow> jsstring \<Rightarrow> envelope io" where
  "gcloud_get_topic P creds projectId topicName =
     io_catch
       (io_bind (getTopic P creds projectId topicName)
         (\<lambda>topic. io_lift (formatResponse topic Json (Some (js ''topic'')))))
       (\<lambda>error. io_return (formatError (error_object P error)))"

definition gcloud_create_topic ::
  "platform \<Rightarrow> tenant_credentials \<Rightarrow> jsstring \<Rightarrow> jsstring \<Rightarrow> envelope io" where
  "gcloud_create_topic P creds projectId topicName =
     io_catch
       (io_bind (createTopic P creds projectId topicName)
         (\<lambda>topic.
            io_lift (formatResponse
                       (JObj [(js ''success'', JBool True),
                              (js ''message'', JStr (js ''Topic '' @ topicName @ js '' created'')),
                              (js ''topic'', topic)])
                       Json None)))
       (\<lambda>error. io_return (formatError (error_object P error)))"

definition gcloud_delete_topic ::
  "platform \<Rightarrow> tenant_credentials \<Rightarrow> jsstring \<Rightarrow> jsstring \<Rightarrow> envelope io" where
  "gcloud_delete_topic P creds projectId topicName =
     io_catch
       (io_bind (deleteTopic P creds projectId topicName)
         (\<lambda>r.
            io_lift (formatResponse
                       (JObj [(js ''success'', JBool True),
                              (js ''message'', JStr (js ''Topic '' @ topicName @ js '' deleted''))])
                       Json None)))
       (\<lambda>error. io_return (formatError (error_object P error)))"

definition gcloud_publish_message ::
  "platform \<Rightarrow> tenant_credentials \<Rightarrow> jsstring \<Rightarrow> jsstring \<Rightarrow> jsstring \<Rightarrow> (jsstring \<times> jsstring) list option \<Rightarrow> envelope io" where
  "gcloud_publish_message P creds projectId topicName data attributes =
     io_catch
       (io_bind (io_lift (btoa data))
         (\<lambda>encoded.
            io_bind (publishMessage P creds projectId topicName
                       (JArr [JObj [(js ''data'', JStr encoded),
                                    (js ''attributes'', opt_record attributes)]]))
              (\<lambda>result.
                 io_bind (io_prop result (js ''messageIds''))
                   (\<lambda>messageIds.
                      io_lift (formatResponse
                                 (JObj [(js ''success'', JBool True),
                                        (js ''message'', JStr (js ''Message published'')),
                                        (js ''messageIds'', messageIds)])
                                 Json None)))))
       (\<lambda>error. io_return (formatError (error_object P error)))"

definition gcloud_list_subscriptions ::
  "platform \<Rightarrow> tenant_credentials \<Rightarrow> jsstring \<Rightarrow> envelope io" where
  "gcloud_list_subscriptions P creds projectId =
     io_catch
       (io_bind (listSubscriptions P creds projectId)
         (\<lambda>result.
            io_bind (io_prop result (js ''subscriptions''))
              (\<lambda>v. io_lift (formatResponse (js_or v (JArr [])) Json (Some (js ''subscriptions''))))))
       (\<lambda>error. io_return (formatError (error_object P error)))"

definition gcloud_get_subscription ::
  "platform \<Rightarrow> tenant_credentials \<Rightarrow> jsstring \<Rightarrow> jsstring \<Rightarrow> envelope io" where
  "gcloud_get_subscription P creds projectId subscriptionName =
     io_catch
       (io_bind (getSubscription P creds projectId subscriptionName)
         (\<lambda>subscription. io_lift (formatResponse subscription Json (Some (js ''subscription'')))))
       (\<lambda>error. io_return (formatError (error_object P error)))"

definition gcloud_create_subscription ::
  "platform \<Rightarrow> tenant_credentials \<Rightarrow> jsstring \<Rightarrow> jsstring \<Rightarrow> jsstring \<Rightarrow> envelope io" where
  "gcloud_create_subscription P creds projectId subscriptionName topicName =
     io_catch
       (io_bind (createSubscription P creds projectId subscriptionName topicName)
         (\<lambda>subscription.
            io_lift (formatResponse
                       (JObj [(js ''success'', JBool True),
                              (js ''message'', JStr (js ''Subscription '' @ subscriptionName @ js '' created'')),
                              (js ''subscription'', subscription)])
                       Json None)))
       (\<lambda>error. io_return (formatError (error_object P error)))"

definition gcloud_delete_subscription ::
  "platform \<Rightarrow> tenant_credentials \<Rightarrow> jsstring \<Rightarrow> jsstring \<Rightarrow> envelope io" where
  "gcloud_delete_subscription P creds projectId subscriptionName =
     io_catch
       (io_bind (deleteSubscription P creds projectId subscriptionName)
         (\<lambda>r.
            io_lift (formatResponse
                       (JObj [(js ''success'', JBool True),
                              (js ''message'', JStr (js ''Subscription '' @ subscriptionName @ js '' deleted''))])
                       Json None)))
       (\<lambda>error. io_return (formatError (error_object P error)))"

definition gcloud_pull_messages ::
  "platform \<Rightarrow> tenant_credentials \<Rightarrow> jsstring \<Rightarrow> jsstring \<Rightarrow> int \<Rightarrow> envelope io" where
  "gcloud_pull_messages P creds projectId subscriptionName maxMessages =
     io_catch
       (io_bind (pullMessages P creds projectId subscriptionName (Some maxMessages))
         (\<lambda>result.
            io_bind (io_prop result (js ''receivedMessages''))
              (\<lambda>received.
                 io_bind (io_lift (case js_or received (JArr []) of
                                     JArr rms \<Rightarrow> map_throwing decode_message rms
                                   | _ \<Rightarrow> Inl TypeError))
                   (\<lambda>messages.
                      io_lift (formatResponse (JArr messages) Json (Some (js ''messages'')))))))
       (\<lambda>error. io_return (formatError (error_object P error)))"

definition gcloud_acknowledge_messages ::
  "platform \<Rightarrow> tenant_credentials \<Rightarrow> jsstring \<Rightarrow> jsstring \<Rightarrow> jsstring list \<Rightarrow> envelope io" where
  "gcloud_acknowledge_messages P creds projectId subscriptionName ackIds =
     io_catch
       (io_bind (acknowledgeMessages P creds projectId subscriptionName ackIds)
         (\<lambda>r.
            io_lift (formatResponse
                       (JObj [(js ''success'', JBool True),
                              (js ''message'', JStr (nat_str (length ackIds) @ js '' messages acknowledged''))])
                       Json None)))
       (\<lambda>error. io_return (formatError (error_object P error)))"

definition gcloud_list_sql_instances ::
  "platform \<Rightarrow> tenant_credentials \<Rightarrow> jsstring \<Rightarrow> envelope io" where
  "gcloud_list_sql_instances P creds projectId =
     io_catch
       (io_bind (listSqlInstances P creds projectId)
         (\<lambda>result.
            io_bind (io_prop result (js ''items''))
              (\<lambda>v. io_lift (formatResponse (js_or v (JArr [])) Json (Some (js ''instances''))))))
       (\<lambda>error. io_return (formatError (error_object P error)))"

definition gcloud_get_sql_instance ::
  "platform \<Rightarrow> tenant_credentials \<Rightarrow> jsstring \<Rightarrow> jsstring \<Rightarrow> envelope io" where
  "gcloud_get_sql_instance P creds projectId instanceName =
     io_catch
       (io_bind (getSqlInstance P creds projectId instanceName)
         (\<lambda>instance. io_lift (formatResponse instance Json (Some (js ''instance'')))))
       (\<lambda>error. io_return (formatError (error_object P error)))"

definition gcloud_delete_sql_instance ::
  "platform \<Rightarrow> tenant_credentials \<Rightarrow> jsstring \<Rightarrow> jsstring \<Rightarrow> envelope io" where
  "gcloud_delete_sql_instance P creds projectId instanceName =
     io_catch
       (io_bind (deleteSqlInstance P creds projectId instanceName)
         (\<lambda>operation.
            io_lift (formatResponse
                       (JObj [(js ''success'', JBool True),
                              (js ''message'', JStr (js ''Instance '' @ instanceName @ js '' deletion initiated'')),
                              (js ''operation'', operation)])
                       Json None)))
       (\<lambda>error. io_return (formatError (error_object P error)))"

definition gcloud_restart_sql_instance ::
  "platform \<Rightarrow> tenant_credentials \<Rightarrow> jsstring \<Rightarrow> jsstring \<Rightarrow> envelope io" where
  "gcloud_restart_sql_instance P creds projectId instanceName =
     io_catch
       (io_bind (restartSqlInstance P creds projectId instanceName)
         (\<lambda>operation.
            io_lift (formatResponse
                       (JObj [(js ''success'', JBool True),
                              (js ''message'', JStr (js ''Instance '' @ instanceName @ js '' restart initiated'')),
                              (js ''operation'', operation)])
                       Json None)))
       (\<lambda>error. io_return (formatError (error_object P error)))"

definition gcloud_list_databases ::
  "platform \<Rightarrow> tenant_credentials \<Rightarrow> jsstring \<Rightarrow> jsstring \<Rightarrow> envelope io" where
  "gcloud_list_databases P creds projectId instanceName =
     io_catch
       (io_bind (listDatabases P creds projectId instanceName)
         (\<lambda>result.
            io_bind (io_prop result (js ''items''))
              (\<lambda>v. io_lift (formatResponse (js_or v (JArr [])) Json (Some (js ''databases''))))))
       (\<lambda>error. io_return (formatError (error_object P error)))"

definition gcloud_get_database ::
  "platform \<Rightarrow> tenant_credentials \<Rightarrow> jsstring \<Rightarrow> jsstring \<Rightarrow> jsstring \<Rightarrow> envelope io" where
  "gcloud_get_database P creds projectId instanceName databaseName =
     io_catch
       (io_bind (getDatabase P creds projectId instanceName databaseName)
         (\<lambda>database. io_lift (formatResponse database Json (Some (js ''database'')))))
       (\<lambda>error. io_return (formatError (error_object P error)))"

definition gcloud_create_database ::
  "platform \<Rightarrow> tenant_credentials \<Rightarrow> jsstring \<Rightarrow> jsstring \<Rightarrow> jsstring \<Rightarrow> envelope io" where
  "gcloud_create_database P creds projectId instanceName databaseName =
     io_catch
       (io_bind (createDatabase P creds projectId instanceName databaseName)
         (\<lambda>operation.
            io_lift (formatResponse
                       (JObj [(js ''success'', JBool True),
                              (js ''message'', JStr (js ''Database '' @ databaseName @ js '' creation initiated'')),
                              (js ''operation'', operation)])
                       Json None)))
       (\<lambda>error. io_return (formatError (error_object P error)))"

definition gcloud_delete_database ::
  "platform \<Rightarrow> tenant_credentials \<Rightarrow> jsstring \<Rightarrow> jsstring \<Rightarrow> jsstring \<Rightarrow> envelope io" where
  "gcloud_delete_database P creds projectId instanceName databaseName =
     io_catch
       (io_bind (deleteDatabase P creds projectId instanceName databaseName)
         (\<lambda>operation.
            io_lift (formatResponse
                       (JObj [(js ''success'', JBool True),
                              (js ''message'', JStr (js ''Database '' @ databaseName @ js '' deletion initiated'')),
                              (js ''operation'', operation)])
                       Json None)))
       (\<lambda>error. io_return (formatError (error_object P error)))"

definition gcloud_list_service_accounts ::
  "platform \<Rightarrow> tenant_credentials \<Rightarrow> jsstring \<Rightarrow> envelope io" where
  "gcloud_list_service_accounts P creds projectId =
     io_catch
       (io_bind (listServiceAccounts P creds projectId)
         (\<lambda>result.
            io_bind (io_prop result (js ''accounts''))
              (\<lambda>v. io_lift (formatResponse (js_or v (JArr [])) Json (Some (js ''service_accounts''))))))
       (\<lambda>error. io_return (formatError (error_object P error)))"

definition gcloud_get_service_account ::
  "platform \<Rightarrow> tenant_credentials \<Rightarrow> jsstring \<Rightarrow> jsstring \<Rightarrow> envelope io" where
  "gcloud_get_service_account P creds projectId email =
     io_catch
       (io_bind (getServiceAccount P creds projectId email)
         (\<lambda>account. io_lift (formatResponse account Json (Some (js ''service_account'')))))
       (\<lambda>error. io_return (formatError (error_object P error)))"

definition gcloud_create_service_account ::
  "platform \<Rightarrow> tenant_credentials \<Rightarrow> jsstring \<Rightarrow> jsstring \<Rightarrow> jsstring option \<Rightarrow> envelope io" where
  "gcloud_create_service_account P creds projectId accountId displayName =
     io_catch
       (io_bind (createServiceAccount P creds projectId accountId displayName)
         (\<lambda>account.
            io_lift (formatResponse
                       (JObj [(js ''success'', JBool True),
                              (js ''message'', JStr (js ''Service account '' @ accountId @ js '' created'')),
                              (js ''account'', account)])
                       Json None)))
       (\<lambda>error. io_return (formatError (error_object P error)))"

definition gcloud_delete_service_account ::
  "platform \<Rightarrow> tenant_credentials \<Rightarrow> jsstring \<Rightarrow> jsstring \<Rightarrow> envelope io" where
  "gcloud_delete_service_account P creds projectId email =
     io_catch
       (io_bind (deleteServiceAccount P creds projectId email)
         (\<lambda>r.
            io_lift (formatResponse
                       (JObj [(js ''success'', JBool True),
                              (js ''message'', JStr (js ''Service account '' @ email @ js '' deleted''))])
                       Json None)))
       (\<lambda>error. io_return (formatError (error_object P error)))"

definition gcloud_get_project_iam_policy ::
  "platform \<Rightarrow> tenant_credentials \<Rightarrow> jsstring \<Rightarrow> envelope io" where
  "gcloud_get_project_iam_policy P creds projectId =
     io_catch
       (io_bind (getProjectIamPolicy P creds projectId)
         (\<lambda>policy. io_lift (formatResponse policy Json (Some (js ''iam_policy'')))))
       (\<lambda>error. io_return (formatError (error_object P error)))"

definition gcloud_set_project_iam_policy ::
  "platform \<Rightarrow> tenant_credentials \<Rightarrow> jsstring \<Rightarrow> (jsstring \<times> jsstring list) list \<Rightarrow> envelope io" where
  "gcloud_set_project_iam_policy P creds projectId bindings =
     io_catch
       (io_bind (getProjectIamPolicy P creds projectId)
         (\<lambda>currentPolicy.
            io_bind (io_prop currentPolicy (js ''version''))
              (\<lambda>version.
                 io_bind (io_prop currentPolicy (js ''etag''))
                   (\<lambda>etag.
                      io_bind (setProjectIamPolicy P creds projectId
                                 (JObj [(js ''version'', version),
                                        (js ''bindings'', bindings_json bindings),
                                        (js ''etag'', etag)]))
                        (\<lambda>policy.
                           io_lift (formatResponse
                                      (JObj [(js ''success'', JBool True),
                                             (js ''message'', JStr (js ''IAM policy updated'')),
                                             (js ''policy'', policy)])
                                      Json None))))))
       (\<lambda>error. io_return (formatError (error_object P error)))"

definition gcloud_list_roles ::
  "platform \<Rightarrow> tenant_credentials \<Rightarrow> jsstring option \<Rightarrow> envelope io" where
  "gcloud_list_roles P creds projectId =
     io_catch
       (io_bind (listRoles P creds projectId)
         (\<lambda>result.
            io_bind (io_prop result (js ''roles''))
              (\<lambda>v. io_lift (formatResponse (js_or v (JArr [])) Json (Some (js ''roles''))))))
       (\<lambda>error. io_return (formatError (error_object P error)))"

definition gcloud_list_secrets ::
  "platform \<Rightarrow> tenant_credentials \<Rightarrow> jsstring \<Rightarrow> envelope io" where
  "gcloud_list_secrets P creds projectId =
     io_catch
       (io_bind (listSecrets P creds projectId)
         (\<lambda>result.
            io_bind (io_prop result (js ''secrets''))
              (\<lambda>v. io_lift (formatResponse (js_or v (JArr [])) Json (Some (js ''secrets''))))))
       (\<lambda>error. io_return (formatError (error_object P error)))"

definition gcloud_get_secret ::
  "platform \<Rightarrow> tenant_credentials \<Rightarrow> jsstring \<Rightarrow> jsstring \<Rightarrow> envelope io" where
  "gcloud_get_secret P creds projectId secretName =
     io_catch
       (io_bind (getSecret P creds projectId secretName)
         (\<lambda>secret. io_lift (formatResponse secret Json (Some (js ''secret'')))))
       (\<lambda>error. io_return (formatError (error_object P error)))"

definition gcloud_create_secret ::
  "platform \<Rightarrow> tenant_credentials \<Rightarrow> jsstring \<Rightarrow> jsstring \<Rightarrow> bool \<Rightarrow> envelope io" where
  "gcloud_create_secret P creds projectId secretId automatic =
     io_catch
       (io_bind (createSecret P creds projectId secretId
                   (if automatic then JObj [(js ''automatic'', JObj [])] else JUndefined))
         (\<lambda>secret.
            io_lift (formatResponse
                       (JObj [(js ''success'', JBool True),
                              (js ''message'', JStr (js ''Secret '' @ secretId @ js '' created'')),
                              (js ''secret'', secret)])
                       Json None)))
       (\<lambda>error. io_return (formatError (error_object P error)))"

definition gcloud_delete_secret ::
  "platform \<Rightarrow> tenant_credentials \<Rightarrow> jsstring \<Rightarrow> jsstring \<Rightarrow> envelope io" where
  "gcloud_delete_secret P creds projectId secretName =
     io_catch
       (io_bind (deleteSecret P creds projectId secretName)
         (\<lambda>r.
            io_lift (formatResponse
                       (JObj [(js ''success'', JBool True),
                              (js ''message'', JStr (js ''Secret '' @ secretName @ js '' deleted''))])
                       Json None)))
       (\<lambda>error. io_return (formatError (error_object P error)))"

definition gcloud_list_secret_versions ::
  "platform \<Rightarrow> tenant_credentials \<Rightarrow> jsstring \<Rightarrow> jsstring \<Rightarrow> envelope io" where
  "gcloud_list_secret_versions P creds projectId secretName =
     io_catch
       (io_bind (listSecretVersions P creds projectId secretName)
         (\<lambda>result.
            io_bind (io_prop result (js ''versions''))
              (\<lambda>v. io_lift (formatResponse (js_or v (JArr [])) Json (Some (js ''versions''))))))
       (\<lambda>error. io_return (formatError (error_object P error)))"

definition gcloud_access_secret_version ::
  "platform \<Rightarrow> tenant_credentials \<Rightarrow> jsstring \<Rightarrow> jsstring \<Rightarrow> jsstring \<Rightarrow> envelope io" where
  "gcloud_access_secret_version P creds projectId secretName version =
     io_catch
       (io_bind (accessSecretVersion P creds projectId secretName (Some version))
         (\<lambda>payload.
            io_bind (io_prop payload (js ''data''))
              (\<lambda>d.
                 io_bind (io_lift (if truthy d then atob (String d) else Inr []))
                   (\<lambda>decoded.
                      io_lift (formatResponse
                                 (JObj [(js ''secretName'', JStr secretName),
                                        (js ''version'', JStr version),
                                        (js ''data'', JStr decoded)])
                                 Json (Some (js ''secret_value'')))))))
       (\<lambda>error. io_return (formatError (error_object P error)))"

definition gcloud_add_secret_version ::
  "platform \<Rightarrow> tenant_credentials \<Rightarrow> jsstring \<Rightarrow> jsstring \<Rightarrow> jsstring \<Rightarrow> envelope io" where
  "gcloud_add_secret_version P creds projectId secretName payload =
     io_catch
       (io_bind (addSecretVersion P creds projectId secretName payload)
         (\<lambda>version.
            io_lift (formatResponse
                       (JObj [(js ''success'', JBool True),
                              (js ''message'', JStr (js ''Secret version added'')),
                              (js ''version'', version)])
                       Json None)))
       (\<lambda>error. io_return (formatError (error_object P error)))"

definition gcloud_list_managed_zones ::
  "platform \<Rightarrow> tenant_credentials \<Rightarrow> jsstring \<Rightarrow> envelope io" where
  "gcloud_list_managed_zones P creds projectId =
     io_catch
       (io_bind (listManagedZones P creds projectId)
         (\<lambda>result.
            io_bind (io_prop result (js ''managedZones''))
              (\<lambda>v. io_lift (formatResponse (js_or v (JArr [])) Json (Some (js ''managed_zones''))))))
       (\<lambda>error. io_return (formatError (error_object P error)))"

definition gcloud_get_managed_zone ::
  "platform \<Rightarrow> tenant_credentials \<Rightarrow> jsstring \<Rightarrow> jsstring \<Rightarrow> envelope io" where
  "gcloud_get_managed_zone P creds projectId zoneName =
     io_catch
       (io_bind (getManagedZone P creds projectId zoneName)
         (\<lambda>zone. io_lift (formatResponse zone Json (Some (js ''managed_zone'')))))
       (\<lambda>error. io_return (formatError (error_object P error)))"

definition gcloud_create_managed_zone ::
  "platform \<Rightarrow> tenant_credentials \<Rightarrow> jsstring \<Rightarrow> jsstring \<Rightarrow> jsstring \<Rightarrow> jsstring option \<Rightarrow> jsstring \<Rightarrow> envelope io" where
  "gcloud_create_managed_zone P creds projectId name dnsName description visibility =
     io_catch
       (io_bind (createManagedZone P creds projectId 
            (JObj [(js ''name'', JStr name),
                  (js ''dnsName'', JStr dnsName),
                  (js ''description'', opt_str description),
                  (js ''visibility'', JStr visibility)]))
         (\<lambda>zone.
            io_lift (formatResponse
                       (JObj [(js ''success'', JBool True),
                              (js ''message'', JStr (js ''Managed zone '' @ name @ js '' created'')),
                              (js ''zone'', zone)])
                       Json None)))
       (\<lambda>error. io_return (formatError (error_object P error)))"

definition gcloud_delete_managed_zone ::
  "platform \<Rightarrow> tenant_credentials \<Rightarrow> jsstring \<Rightarrow> jsstring \<Rightarrow> envelope io" where
  "gcloud_delete_managed_zone P creds projectId zoneName =
     io_catch
       (io_bind (deleteManagedZone P creds projectId zoneName)
         (\<lambda>r.
            io_lift (formatResponse
                       (JObj [(js ''success'', JBool True),
                              (js ''message'', JStr (js ''Managed zone '' @ zoneName @ js '' deleted''))])
                       Json None)))
       (\<lambda>error. io_return (formatError (error_object P error)))"

definition gcloud_list_resource_record_sets ::
  "platform \<Rightarrow> tenant_credentials \<Rightarrow> jsstring \<Rightarrow> jsstring \<Rightarrow> envelope io" where
  "gcloud_list_resource_record_sets P creds projectId zoneName =
     io_catch
       (io_bind (listResourceRecordSets P creds projectId zoneName)
         (\<lambda>result.
            io_bind (io_prop result (js ''rrsets''))
              (\<lambda>v. io_lift (formatResponse (js_or v (JArr [])) Json (Some (js ''resource_record_sets''))))))
       (\<lambda>error. io_return (formatError (error_object P error)))"

definition gcloud_create_resource_record_set ::
  "platform \<Rightarrow> tenant_credentials \<Rightarrow> jsstring \<Rightarrow> jsstring \<Rightarrow> jsstring \<Rightarrow> jsstring \<Rightarrow> int \<Rightarrow> jsstring list \<Rightarrow> envelope io" where
  "gcloud_create_resource_record_set P creds projectId zoneName name type ttl rrdatas =
     io_catch
       (io_bind (createResourceRecordSet P creds projectId zoneName 
            (JObj [(js ''name'', JStr name),
                  (js ''type'', JStr type),
                  (js ''ttl'', JNum ttl),
                  (js ''rrdatas'', JArr (map JStr rrdatas))]))
         (\<lambda>rrset.
            io_lift (formatResponse
                       (JObj [(js ''success'', JBool True),
                              (js ''message'', JStr (js ''Resource record set created'')),
                              (js ''rrset'', rrset)])
                       Json None)))
       (\<lambda>error. io_return (formatError (error_object P error)))"

definition gcloud_delete_resource_record_set ::
  "platform \<Rightarrow> tenant_credentials \<Rightarrow> jsstring \<Rightarrow> jsstring \<Rightarrow> jsstring \<Rightarrow> jsstring \<Rightarrow> envelope io" where
  "gcloud_delete_resource_record_set P creds projectId zoneName name type =
     io_catch
       (io_bind (deleteResourceRecordSet P creds projectId zoneName name type)
         (\<lambda>r.
            io_lift (formatResponse
                       (JObj [(js ''success'', JBool True),
                              (js ''message'', JStr (js ''Record '' @ name @ js '' ('' @ type @ js '') deleted''))])
                       Json None)))
       (\<lambda>error. io_return (formatError (error_object P error)))"

definition gcloud_list_clusters ::
  "platform \<Rightarrow> tenant_credentials \<Rightarrow> jsstring \<Rightarrow> jsstring \<Rightarrow> envelope io" where
  "gcloud_list_clusters P creds projectId location =
     io_catch
       (io_bind (listClusters P creds projectId location)
         (\<lambda>result.
            io_bind (io_prop result (js ''clusters''))
              (\<lambda>v. io_lift (formatResponse (js_or v (JArr [])) Json (Some (js ''clusters''))))))
       (\<lambda>error. io_return (formatError (error_object P error)))"

definition gcloud_get_cluster ::
  "platform \<Rightarrow> tenant_credentials \<Rightarrow> jsstring \<Rightarrow> jsstring \<Rightarrow> jsstring \<Rightarrow> envelope io" where
  "gcloud_get_cluster P creds projectId location clusterName =
     io_catch
       (io_bind (getCluster P creds projectId location clusterName)
         (\<lambda>cluster. io_lift (formatResponse cluster Json (Some (js ''cluster'')))))
       (\<lambda>error. io_return (formatError (error_object P error)))"

definition gcloud_delete_cluster ::
  "platform \<Rightarrow> tenant_credentials \<Rightarrow> jsstring \<Rightarrow> jsstring \<Rightarrow> jsstring \<Rightarrow> envelope io" where
  "gcloud_delete_cluster P creds projectId location clusterName =
     io_catch
       (io_bind (deleteCluster P creds projectId location clusterName)
         (\<lambda>operation.
            io_lift (formatResponse
                       (JObj [(js ''success'', JBool True),
                              (js ''message'', JStr (js ''Cluster '' @ clusterName @ js '' deletion initiated'')),
                              (js ''operation'', operation)])
                       Json None)))
       (\<lambda>error. io_return (formatError (error_object P error)))"

definition gcloud_list_node_pools ::
  "platform \<Rightarrow> tenant_credentials \<Rightarrow> jsstring \<Rightarrow> jsstring \<Rightarrow> jsstring \<Rightarrow> envelope io" where
  "gcloud_list_node_pools P creds projectId location clusterName =
     io_catch
       (io_bind (listNodePools P creds projectId location clusterName)
         (\<lambda>result.
            io_bind (io_prop result (js ''nodePools''))
              (\<lambda>v. io_lift (formatResponse (js_or v (JArr [])) Json (Some (js ''node_pools''))))))
       (\<lambda>error. io_return (formatError (error_object P error)))"

definition gcloud_get_node_pool ::
  "platform \<Rightarrow> tenant_credentials \<Rightarrow> jsstring \<Rightarrow> jsstring \<Rightarrow> jsstring \<Rightarrow> jsstring \<Rightarrow> envelope io" where
  "gcloud_get_node_pool P creds projectId location clusterName nodePoolName =
     io_catch
       (io_bind (getNodePool P creds projectId location clusterName nodePoolName)
         (\<lambda>nodePool. io_lift (formatResponse nodePool Json (Some (js ''node_pool'')))))
       (\<lambda>error. io_return (formatError (error_object P error)))"

definition gcloud_list_log_entries ::
  "platform \<Rightarrow> tenant_credentials \<Rightarrow> jsstring \<Rightarrow> jsstring option \<Rightarrow> int \<Rightarrow> envelope io" where
  "gcloud_list_log_entries P creds projectId filter' pageSize =
     io_catch
       (io_bind (listLogEntries P creds projectId filter' (Some pageSize))
         (\<lambda>result.
            io_bind (io_prop result (js ''entries''))
              (\<lambda>v. io_lift (formatResponse (js_or v (JArr [])) Json (Some (js ''log_entries''))))))
       (\<lambda>error. io_return (formatError (error_object P error)))"

definition gcloud_write_log_entry ::
  "platform \<Rightarrow> tenant_credentials \<Rightarrow> jsstring \<Rightarrow> jsstring \<Rightarrow> jsstring \<Rightarrow> jsstring \<Rightarrow> (jsstring \<times> jsstring) list option \<Rightarrow> envelope io" where
  "gcloud_write_log_entry P creds projectId logName severity textMessage labels =
     io_catch
       (io_bind (writeLogEntries P creds projectId logName
                   (JArr [JObj [(js ''severity'', JStr severity),
                                (js ''textPayload'', JStr textMessage),
                                (js ''labels'', opt_record labels)]]))
         (\<lambda>r.
            io_lift (formatResponse
                       (JObj [(js ''success'', JBool True),
                              (js ''message'', JStr (js ''Log entry written''))])
                       Json None)))
       (\<lambda>error. io_return (formatError (error_object P error)))"

definition gcloud_write_log_json ::
  "platform \<Rightarrow> tenant_credentials \<Rightarrow> jsstring \<Rightarrow> jsstring \<Rightarrow> jsstring \<Rightarrow> (jsstring \<times> json) list \<Rightarrow> (jsstring \<times> jsstring) list option \<Rightarrow> envelope io" where
  "gcloud_write_log_json P creds projectId logName severity jsonPayload labels =
     io_catch
       (io_bind (writeLogEntries P creds projectId logName
                   (JArr [JObj [(js ''severity'', JStr severity),
                                (js ''jsonPayload'', JObj jsonPayload),
                                (js ''labels'', opt_record labels)]]))
         (\<lambda>r.
            io_lift (formatResponse
                       (JObj [(js ''success'', JBool True),
                              (js ''message'', JStr (js ''JSON log entry written''))])
                       Json None)))
       (\<lambda>error. io_return (formatError (error_object P error)))"

definition gcloud_list_logs ::
  "platform \<Rightarrow> tenant_credentials \<Rightarrow> jsstring \<Rightarrow> envelope io" where
  "gcloud_list_logs P creds projectId =
     io_catch
       (io_bind (listLogs P creds projectId)
         (\<lambda>result.
            io_bind (io_prop result (js ''logNames''))
              (\<lambda>v. io_lift (formatResponse (js_or v (JArr [])) Json (Some (js ''logs''))))))
       (\<lambda>error. io_return (formatError (error_object P error)))"

definition gcloud_test_connection :: "platform \<Rightarrow> tenant_credentials \<Rightarrow> envelope io" where
  "gcloud_test_connection P creds =
     io_catch
       (io_bind (testConnection P creds)
         (\<lambda>result.
            io_return \<lparr>content = [\<lparr>item_type = js ''text'', item_text = JSON_stringify result 2\<rparr>],
                       isError = None\<rparr>))
       (\<lambda>error.
          io_return
            \<lparr>content =
               [\<lparr>item_type = js ''text'',
                 item_text = Some (js ''Connection failed: ''
                                   @ (case error_object P error of
                                        AnError e \<Rightarrow> err_message e
                                      | NotAnError v \<Rightarrow> js ''Unknown error''))\<rparr>],
             isError = Some True\<rparr>)"

text \<open>The registered tools, each invoked with arbitrary validated arguments.\<close>

inductive tool_invocation ::
  "string \<Rightarrow> (platform \<Rightarrow> tenant_credentials \<Rightarrow> envelope io) \<Rightarrow> bool" where
  t_list_instances: "tool_invocation ''gcloud_list_instances'' (\<lambda>P creds. gcloud_list_instances P creds projectId zone)"
| t_get_instance: "tool_invocation ''gcloud_get_instance'' (\<lambda>P creds. gcloud_get_instance P creds projectId zone instanceName)"
| t_start_instance: "tool_invocation ''gcloud_start_instance'' (\<lambda>P creds. gcloud_start_instance P creds projectId zone instanceName)"
| t_stop_instance: "tool_invocation ''gcloud_stop_instance'' (\<lambda>P creds. gcloud_stop_instance P creds projectId zone instanceName)"
| t_reset_instance: "tool_invocation ''gcloud_reset_instance'' (\<lambda>P creds. gcloud_reset_instance P creds projectId zone instanceName)"
| t_delete_instance: "tool_invocation ''gcloud_delete_instance'' (\<lambda>P creds. gcloud_delete_instance P creds projectId zone instanceName)"
| t_list_disks: "tool_invocation ''gcloud_list_disks'' (\<lambda>P creds. gcloud_list_disks P creds projectId zone)"
| t_get_disk: "tool_invocation ''gcloud_get_disk'' (\<lambda>P creds. gcloud_get_disk P creds projectId zone diskName)"
| t_create_disk: "tool_invocation ''gcloud_create_disk'' (\<lambda>P creds. gcloud_create_disk P creds projectId zone name sizeGb type sourceImage)"
| t_delete_disk: "tool_invocation ''gcloud_delete_disk'' (\<lambda>P creds. gcloud_delete_disk P creds projectId zone diskName)"
| t_resize_disk: "tool_invocation ''gcloud_resize_disk'' (\<lambda>P creds. gcloud_resize_disk P creds projectId zone diskName sizeGb)"
| t_list_networks: "tool_invocation ''gcloud_list_networks'' (\<lambda>P creds. gcloud_list_networks P creds projectId)"
| t_get_network: "tool_invocation ''gcloud_get_network'' (\<lambda>P creds. gcloud_get_network P creds projectId networkName)"
| t_create_network: "tool_invocation ''gcloud_create_network'' (\<lambda>P creds. gcloud_create_network P creds projectId name autoCreateSubnetworks)"
| t_delete_network: "tool_invocation ''gcloud_delete_network'' (\<lambda>P creds. gcloud_delete_network P creds projectId networkName)"
| t_list_firewalls: "tool_invocation ''gcloud_list_firewalls'' (\<lambda>P creds. gcloud_list_firewalls P creds projectId)"
| t_get_firewall: "tool_invocation ''gcloud_get_firewall'' (\<lambda>P creds. gcloud_get_firewall P creds projectId firewallName)"
| t_delete_firewall: "tool_invocation ''gcloud_delete_firewall'' (\<lambda>P creds. gcloud_delete_firewall P creds projectId firewallName)"
| t_list_buckets: "tool_invocation ''gcloud_list_buckets'' (\<lambda>P creds. gcloud_list_buckets P creds projectId)"
| t_get_bucket: "tool_invocation ''gcloud_get_bucket'' (\<lambda>P creds. gcloud_get_bucket P creds bucketName)"
| t_create_bucket: "tool_invocation ''gcloud_create_bucket'' (\<lambda>P creds. gcloud_create_bucket P creds projectId name location storageClass)"
| t_delete_bucket: "tool_invocation ''gcloud_delete_bucket'' (\<lambda>P creds. gcloud_delete_bucket P creds bucketName)"
| t_list_objects: "tool_invocation ''gcloud_list_objects'' (\<lambda>P creds. gcloud_list_objects P creds bucketName prefix' maxResults)"
| t_get_object: "tool_invocation ''gcloud_get_object'' (\<lambda>P creds. gcloud_get_object P creds bucketName objectName)"
| t_delete_object: "tool_invocation ''gcloud_delete_object'' (\<lambda>P creds. gcloud_delete_object P creds bucketName objectName)"
| t_copy_object: "tool_invocation ''gcloud_copy_object'' (\<lambda>P creds. gcloud_copy_object P creds sourceBucket sourceObject destBucket destObject)"
| t_list_functions: "tool_invocation ''gcloud_list_functions'' (\<lambda>P creds. gcloud_list_functions P creds projectId location)"
| t_get_function: "tool_invocation ''gcloud_get_function'' (\<lambda>P creds. gcloud_get_function P creds projectId location functionName)"
| t_delete_function: "tool_invocation ''gcloud_delete_function'' (\<lambda>P creds. gcloud_delete_function P creds projectId location functionName)"
| t_list_cloud_run_services: "tool_invocation ''gcloud_list_cloud_run_services'' (\<lambda>P creds. gcloud_list_cloud_run_services P creds projectId location)"
| t_get_cloud_run_service: "tool_invocation ''gcloud_get_cloud_run_service'' (\<lambda>P creds. gcloud_get_cloud_run_service P creds projectId location serviceName)"
| t_delete_cloud_run_service: "tool_invocation ''gcloud_delete_cloud_run_service'' (\<lambda>P creds. gcloud_delete_cloud_run_service P creds projectId location serviceName)"
| t_list_datasets: "tool_invocation ''gcloud_list_datasets'' (\<lambda>P creds. gcloud_list_datasets P creds projectId)"
| t_get_dataset: "tool_invocation ''gcloud_get_dataset'' (\<lambda>P creds. gcloud_get_dataset P creds projectId datasetId)"
| t_create_dataset: "tool_invocation ''gcloud_create_dataset'' (\<lambda>P creds. gcloud_create_dataset P creds projectId datasetId location)"
| t_delete_dataset: "tool_invocation ''gcloud_delete_dataset'' (\<lambda>P creds. gcloud_delete_dataset P creds projectId datasetId deleteContents)"
| t_list_tables: "tool_invocation ''gcloud_list_tables'' (\<lambda>P creds. gcloud_list_tables P creds projectId datasetId)"
| t_get_table: "tool_invocation ''gcloud_get_table'' (\<lambda>P creds. gcloud_get_table P creds projectId datasetId tableId)"
| t_bigquery_query: "tool_invocation ''gcloud_bigquery_query'' (\<lambda>P creds. gcloud_bigquery_query P creds projectId query useLegacySql)"
| t_list_topics: "tool_invocation ''gcloud_list_topics'' (\<lambda>P creds. gcloud_list_topics P creds projectId)"
| t_get_topic: "tool_invocation ''gcloud_get_topic'' (\<lambda>P creds. gcloud_get_topic P creds projectId topicName)"
| t_create_topic: "tool_invocation ''gcloud_create_topic'' (\<lambda>P creds. gcloud_create_topic P creds projectId topicName)"
| t_delete_topic: "tool_invocation ''gcloud_delete_topic'' (\<lambda>P creds. gcloud_delete_topic P creds projectId topicName)"
| t_publish_message: "tool_invocation ''gcloud_publish_message'' (\<lambda>P creds. gcloud_publish_message P creds projectId topicName data attributes)"
| t_list_subscriptions: "tool_invocation ''gcloud_list_subscriptions'' (\<lambda>P creds. gcloud_list_subscriptions P creds projectId)"
| t_get_subscription: "tool_invocation ''gcloud_get_subscription'' (\<lambda>P creds. gcloud_get_subscription P creds projectId subscriptionName)"
| t_create_subscription: "tool_invocation ''gcloud_create_subscription'' (\<lambda>P creds. gcloud_create_subscription P creds projectId subscriptionName topicName)"
| t_delete_subscription: "tool_invocation ''gcloud_delete_subscription'' (\<lambda>P creds. gcloud_delete_subscription P creds projectId subscriptionName)"
| t_pull_messages: "tool_invocation ''gcloud_pull_messages'' (\<lambda>P creds. gcloud_pull_messages P creds projectId subscriptionName maxMessages)"
| t_acknowledge_messages: "tool_invocation ''gcloud_acknowledge_messages'' (\<lambda>P creds. gcloud_acknowledge_messages P creds projectId subscriptionName ackIds)"
| t_list_sql_instances: "tool_invocation ''gcloud_list_sql_instances'' (\<lambda>P creds. gcloud_list_sql_instances P creds projectId)"
| t_get_sql_instance: "tool_invocation ''gcloud_get_sql_instance'' (\<lambda>P creds. gcloud_get_sql_instance P creds projectId instanceName)"
| t_delete_sql_instance: "tool_invocation ''gcloud_delete_sql_instance'' (\<lambda>P creds. gcloud_delete_sql_instance P creds projectId instanceName)"
| t_restart_sql_instance: "tool_invocation ''gcloud_restart_sql_instance'' (\<lambda>P creds. gcloud_restart_sql_instance P creds projectId instanceName)"
| t_list_databases: "tool_invocation ''gcloud_list_databases'' (\<lambda>P creds. gcloud_list_databases P creds projectId instanceName)"
| t_get_database: "tool_invocation ''gcloud_get_database'' (\<lambda>P creds. gcloud_get_database P creds projectId instanceName databaseName)"
| t_create_database: "tool_invocation ''gcloud_create_database'' (\<lambda>P creds. gcloud_create_database P creds projectId instanceName databaseName)"
| t_delete_database: "tool_invocation ''gcloud_delete_database'' (\<lambda>P creds. gcloud_delete_database P creds projectId instanceName databaseName)"
| t_list_service_accounts: "tool_invocation ''gcloud_list_service_accounts'' (\<lambda>P creds. gcloud_list_service_accounts P creds projectId)"
| t_get_service_account: "tool_invocation ''gcloud_get_service_account'' (\<lambda>P creds. gcloud_get_service_account P creds projectId email)"
| t_create_service_account: "tool_invocation ''gcloud_create_service_account'' (\<lambda>P creds. gcloud_create_service_account P creds projectId accountId displayName)"
| t_delete_service_account: "tool_invocation ''gcloud_delete_service_account'' (\<lambda>P creds. gcloud_delete_service_account P creds projectId email)"
| t_get_project_iam_policy: "tool_invocation ''gcloud_get_project_iam_policy'' (\<lambda>P creds. gcloud_get_project_iam_policy P creds projectId)"
| t_set_project_iam_policy: "tool_invocation ''gcloud_set_project_iam_policy'' (\<lambda>P creds. gcloud_set_project_iam_policy P creds projectId bindings)"
| t_list_roles: "tool_invocation ''gcloud_list_roles'' (\<lambda>P creds. gcloud_list_roles P creds projectId)"
| t_list_secrets: "tool_invocation ''gcloud_list_secrets'' (\<lambda>P creds. gcloud_list_secrets P creds projectId)"
| t_get_secret: "tool_invocation ''gcloud_get_secret'' (\<lambda>P creds. gcloud_get_secret P creds projectId secretName)"
| t_create_secret: "tool_invocation ''gcloud_create_secret'' (\<lambda>P creds. gcloud_create_secret P creds projectId secretId automatic)"
| t_delete_secret: "tool_invocation ''gcloud_delete_secret'' (\<lambda>P creds. gcloud_delete_secret P creds projectId secretName)"
| t_list_secret_versions: "tool_invocation ''gcloud_list_secret_versions'' (\<lambda>P creds. gcloud_list_secret_versions P creds projectId secretName)"
| t_access_secret_version: "tool_invocation ''gcloud_access_secret_version'' (\<lambda>P creds. gcloud_access_secret_version P creds projectId secretName version)"
| t_add_secret_version: "tool_invocation ''gcloud_add_secret_version'' (\<lambda>P creds. gcloud_add_secret_version P creds projectId secretName payload)"
| t_list_managed_zones: "tool_invocation ''gcloud_list_managed_zones'' (\<lambda>P creds. gcloud_list_managed_zones P creds projectId)"
| t_get_managed_zone: "tool_invocation ''gcloud_get_managed_zone'' (\<lambda>P creds. gcloud_get_managed_zone P creds projectId zoneName)"
| t_create_managed_zone: "tool_invocation ''gcloud_create_managed_zone'' (\<lambda>P creds. gcloud_create_managed_zone P creds projectId name dnsName description visibility)"
| t_delete_managed_zone: "tool_invocation ''gcloud_delete_managed_zone'' (\<lambda>P creds. gcloud_delete_managed_zone P creds projectId zoneName)"
| t_list_resource_record_sets: "tool_invocation ''gcloud_list_resource_record_sets'' (\<lambda>P creds. gcloud_list_resource_record_sets P creds projectId zoneName)"
| t_create_resource_record_set: "tool_invocation ''gcloud_create_resource_record_set'' (\<lambda>P creds. gcloud_create_resource_record_set P creds projectId zoneName name type ttl rrdatas)"
| t_delete_resource_record_set: "tool_invocation ''gcloud_delete_resource_record_set'' (\<lambda>P creds. gcloud_delete_resource_record_set P creds projectId zoneName name type)"
| t_list_clusters: "tool_invocation ''gcloud_list_clusters'' (\<lambda>P creds. gcloud_list_clusters P creds projectId location)"
| t_get_cluster: "tool_invocation ''gcloud_get_cluster'' (\<lambda>P creds. gcloud_get_cluster P creds projectId location clusterName)"
| t_delete_cluster: "tool_invocation ''gcloud_delete_cluster'' (\<lambda>P creds. gcloud_delete_cluster P creds projectId location clusterName)"
| t_list_node_pools: "tool_invocation ''gcloud_list_node_pools'' (\<lambda>P creds. gcloud_list_node_pools P creds projectId location clusterName)"
| t_get_node_pool: "tool_invocation ''gcloud_get_node_pool'' (\<lambda>P creds. gcloud_get_node_pool P creds projectId location clusterName nodePoolName)"
| t_list_log_entries: "tool_invocation ''gcloud_list_log_entries'' (\<lambda>P creds. gcloud_list_log_entries P creds projectId filter' pageSize)"
| t_write_log_entry: "tool_invocation ''gcloud_write_log_entry'' (\<lambda>P creds. gcloud_write_log_entry P creds projectId logName severity textMessage labels)"
| t_write_log_json: "tool_invocation ''gcloud_write_log_json'' (\<lambda>P creds. gcloud_write_log_json P creds projectId logName severity jsonPayload labels)"
| t_list_logs: "tool_invocation ''gcloud_list_logs'' (\<lambda>P creds. gcloud_list_logs P creds projectId)"
| t_test_connection: "tool_invocation ''gcloud_test_connection'' gcloud_test_connection"

section \<open>Vocabulary of the properties\<close>

text \<open>The requests that a computation adds to the list it starts from.\<close>

definition issued :: "'a io \<Rightarrow> http_request list \<Rightarrow> http_request list" where
  "issued m log = drop (length log) (snd (m log))"

text \<open>
  What \<open>request\<close> sends for given credentials, URL and options: nothing without an
  access token, and otherwise the one request that it passes to \<open>fetch\<close>.
\<close>

definition planned :: "tenant_credentials \<Rightarrow> jsstring \<Rightarrow> request_init \<Rightarrow> http_request list" where
  "planned creds url options =
     (case getAuthHeaders creds of Inl e \<Rightarrow> [] | Inr auth \<Rightarrow> [fetch_args auth url options])"

text \<open>
  A computation sends \<open>reqs\<close> when, on every platform and from every list of earlier
  requests, it extends the list by exactly \<open>reqs\<close>.
\<close>

definition sends :: "(platform \<Rightarrow> 'a io) \<Rightarrow> http_request list \<Rightarrow> bool" where
  "sends m reqs = (\<forall>P log. snd (m P log) = log @ reqs)"

text \<open>A request carries the bearer token of the credentials.\<close>

definition authorised :: "tenant_credentials \<Rightarrow> http_request \<Rightarrow> bool" where
  "authorised creds q =
     (\<exists>token. cred_accessToken creds = Some token \<and> token \<noteq> []
        \<and> req_headers q = [(js ''Authorization'', js ''Bearer '' @ token),
                           (js ''Content-Type'', js ''application/json'')])"

text \<open>
  The fixed service endpoints: the twelve entries of \<open>API_URLS\<close> and the Resource
  Manager endpoint that the IAM policy operations name in full.
\<close>

definition endpoints :: "jsstring list" where
  "endpoints =
     [API_URLS_compute, API_URLS_storage, API_URLS_functions, API_URLS_run, API_URLS_bigquery,
      API_URLS_pubsub, API_URLS_sql, API_URLS_iam, API_URLS_secretmanager, API_URLS_dns,
      API_URLS_container, API_URLS_logging,
      js ''https://cloudresourcemanager.googleapis.com/v1'']"

definition known_endpoint :: "jsstring \<Rightarrow> bool" where
  "known_endpoint url = (\<exists>b \<in> set endpoints. prefix (b @ js ''/'') url)"

definition no_token_error :: thrown where
  "no_token_error =
     AuthenticationError (js ''No access token provided. Include X-GCloud-Access-Token header.'')"

text \<open>
  At most one request, which carries the bearer token and goes to a fixed endpoint, and
  none at all without an access token.
\<close>

definition orderly :: "tenant_credentials \<Rightarrow> http_request list \<Rightarrow> bool" where
  "orderly creds reqs =
     (length reqs \<le> 1
      \<and> (\<forall>q \<in> set reqs. authorised creds q \<and> known_endpoint (req_url q))
      \<and> (getAuthHeaders creds = Inl no_token_error \<longrightarrow> reqs = []))"

text \<open>
  A computation relays the error of its request: whenever it issues exactly one request
  and \<open>request\<close> throws an error for that request, it throws the same error.
\<close>

definition relays :: "tenant_credentials \<Rightarrow> (platform \<Rightarrow> 'a io) \<Rightarrow> bool" where
  "relays creds m =
     (\<forall>P log q e. issued (m P) log = [q]
        \<longrightarrow> (\<forall>url options. planned creds url options = [q]
               \<longrightarrow> fst (request P creds url options log) = Inl e)
        \<longrightarrow> fst (m P log) = Inl e)"

text \<open>The envelope of a successful JSON response.\<close>

definition json_envelope :: "json \<Rightarrow> envelope" where
  "json_envelope data =
     \<lparr>content = [\<lparr>item_type = js ''text'', item_text = JSON_stringify data 2\<rparr>],
      isError = None\<rparr>"





subsection \<open>Concrete inputs\<close>

text \<open>
  A platform on which every request is answered by the same response, and on which every
  thrown value is an \<open>Error\<close> named after its class, with its message argument as
  message and neither code nor status code.
\<close>

definition sample_error_object :: "thrown \<Rightarrow> caught" where
  "sample_error_object e =
     AnError
       (case e of
          RateLimitError m n \<Rightarrow>
            \<lparr>err_name = js ''RateLimitError'', err_message = m,
             err_code = JUndefined, err_statusCode = JUndefined\<rparr>
        | AuthenticationError m \<Rightarrow>
            \<lparr>err_name = js ''AuthenticationError'', err_message = m,
             err_code = JUndefined, err_statusCode = JUndefined\<rparr>
        | PermissionDeniedError m \<Rightarrow>
            \<lparr>err_name = js ''PermissionDeniedError'', err_message = m,
             err_code = JUndefined, err_statusCode = JUndefined\<rparr>
        | NotFoundError a b \<Rightarrow>
            \<lparr>err_name = js ''NotFoundError'', err_message = a @ js '' '' @ b,
             err_code = JUndefined, err_statusCode = JUndefined\<rparr>
        | GCloudApiError m st \<Rightarrow>
            \<lparr>err_name = js ''GCloudApiError'', err_message = String m,
             err_code = JUndefined, err_statusCode = JUndefined\<rparr>
        | TypeError \<Rightarrow>
            \<lparr>err_name = js ''TypeError'', err_message = [],
             err_code = JUndefined, err_statusCode = JUndefined\<rparr>
        | SyntaxError \<Rightarrow>
            \<lparr>err_name = js ''SyntaxError'', err_message = [],
             err_code = JUndefined, err_statusCode = JUndefined\<rparr>
        | InvalidCharacterError \<Rightarrow>
            \<lparr>err_name = js ''InvalidCharacterError'', err_message = [],
             err_code = JUndefined, err_statusCode = JUndefined\<rparr>
        | URIError \<Rightarrow>
            \<lparr>err_name = js ''URIError'', err_message = [],
             err_code = JUndefined, err_statusCode = JUndefined\<rparr>
        | FetchRejected \<Rightarrow>
            \<lparr>err_name = js ''TypeError'', err_message = [],
             err_code = JUndefined, err_statusCode = JUndefined\<rparr>)"

definition answering :: "response \<Rightarrow> platform" where
  "answering r = \<lparr>fetch = (\<lambda>log q. Responded r), error_object = sample_error_object\<rparr>"

definition sample_credentials :: tenant_credentials where
  "sample_credentials = \<lparr>cred_accessToken = Some (js ''ya29.sample''), cred_projectId = Some (js ''demo'')\<rparr>"

definition no_credentials :: tenant_credentials where
  "no_credentials = \<lparr>cred_accessToken = None, cred_projectId = None\<rparr>"

definition json_response :: "nat \<Rightarrow> json \<Rightarrow> response" where
  "json_response st body = \<lparr>resp_status = st, resp_retry_after = None, resp_json = Some body\<rparr>"

section \<open>Requests issued by the client and the tools\<close>

lemmas client_defs = testConnection_def listInstances_def getInstance_def
  createInstance_def deleteInstance_def startInstance_def stopInstance_def
  resetInstance_def listDisks_def getDisk_def createDisk_def deleteDisk_def
  resizeDisk_def listNetworks_def getNetwork_def createNetwork_def deleteNetwork_def
  listFirewalls_def getFirewall_def createFirewall_def deleteFirewall_def
  listBuckets_def getBucket_def createBucket_def deleteBucket_def listObjects_def
  getObject_def deleteObject_def copyObject_def listFunctions_def getFunction_def
  deleteFunction_def listCloudRunServices_def getCloudRunService_def
  deleteCloudRunService_def listDatasets_def getDataset_def createDataset_def
  deleteDataset_def listTables_def getTable_def runQuery_def listTopics_def getTopic_def
  createTopic_def deleteTopic_def publishMessage_def listSubscriptions_def
  getSubscription_def createSubscription_def deleteSubscription_def pullMessages_def
  acknowledgeMessages_def listSqlInstances_def getSqlInstance_def deleteSqlInstance_def
  restartSqlInstance_def listDatabases_def getDatabase_def createDatabase_def
  deleteDatabase_def listServiceAccounts_def getServiceAccount_def
  createServiceAccount_def deleteServiceAccount_def getProjectIamPolicy_def
  setProjectIamPolicy_def listRoles_def listSecrets_def getSecret_def createSecret_def
  deleteSecret_def listSecretVersions_def accessSecretVersion_def addSecretVersion_def
  listManagedZones_def getManagedZone_def createManagedZone_def deleteManagedZone_def
  listResourceRecordSets_def createResourceRecordSet_def deleteResourceRecordSet_def
  listClusters_def getCluster_def deleteCluster_def listNodePools_def getNodePool_def
  listLogEntries_def writeLogEntries_def listLogs_def

lemmas tool_defs = gcloud_list_instances_def gcloud_get_instance_def
  gcloud_start_instance_def gcloud_stop_instance_def gcloud_reset_instance_def
  gcloud_delete_instance_def gcloud_list_disks_def gcloud_get_disk_def
  gcloud_create_disk_def gcloud_delete_disk_def gcloud_resize_disk_def
  gcloud_list_networks_def gcloud_get_network_def gcloud_create_network_def
  gcloud_delete_network_def gcloud_list_firewalls_def gcloud_get_firewall_def
  gcloud_delete_firewall_def gcloud_list_buckets_def gcloud_get_bucket_def
  gcloud_create_bucket_def gcloud_delete_bucket_def gcloud_list_objects_def
  gcloud_get_object_def gcloud_delete_object_def gcloud_copy_object_def
  gcloud_list_functions_def gcloud_get_function_def gcloud_delete_function_def
  gcloud_list_cloud_run_services_def gcloud_get_cloud_run_service_def
  gcloud_delete_cloud_run_service_def gcloud_list_datasets_def gcloud_get_dataset_def
  gcloud_create_dataset_def gcloud_delete_dataset_def gcloud_list_tables_def
  gcloud_get_table_def gcloud_bigquery_query_def gcloud_list_topics_def
  gcloud_get_topic_def gcloud_create_topic_def gcloud_delete_topic_def
  gcloud_publish_message_def gcloud_list_subscriptions_def gcloud_get_subscription_def
  gcloud_create_subscription_def gcloud_delete_subscription_def gcloud_pull_messages_def
  gcloud_acknowledge_messages_def gcloud_list_sql_instances_def
  gcloud_get_sql_instance_def gcloud_delete_sql_instance_def
  gcloud_restart_sql_instance_def gcloud_list_databases_def gcloud_get_database_def
  gcloud_create_database_def gcloud_delete_database_def gcloud_list_service_accounts_def
  gcloud_get_service_account_def gcloud_create_service_account_def
  gcloud_delete_service_account_def gcloud_get_project_iam_policy_def
  gcloud_set_project_iam_policy_def gcloud_list_roles_def gcloud_list_secrets_def
  gcloud_get_secret_def gcloud_create_secret_def gcloud_delete_secret_def
  gcloud_list_secret_versions_def gcloud_access_secret_version_def
  gcloud_add_secret_version_def gcloud_list_managed_zones_def
  gcloud_get_managed_zone_def gcloud_create_managed_zone_def
  gcloud_delete_managed_zone_def gcloud_list_resource_record_sets_def
  gcloud_create_resource_record_set_def gcloud_delete_resource_record_set_def
  gcloud_list_clusters_def gcloud_get_cluster_def gcloud_delete_cluster_def
  gcloud_list_node_pools_def gcloud_get_node_pool_def gcloud_list_log_entries_def
  gcloud_write_log_entry_def gcloud_write_log_json_def gcloud_list_logs_def
  gcloud_test_connection_def

subsection \<open>The request helper\<close>

lemma getAuthHeaders_Inr:
  "getAuthHeaders creds = Inr auth \<Longrightarrow>
     \<exists>token. cred_accessToken creds = Some token \<and> token \<noteq> []
       \<and> auth = [(js ''Authorization'', js ''Bearer '' @ token),
                  (js ''Content-Type'', js ''application/json'')]"
  by (auto simp: getAuthHeaders_def split: option.splits if_splits)

lemma getAuthHeaders_Inl:
  "getAuthHeaders creds = Inl e \<Longrightarrow>
     e = no_token_error \<and> (cred_accessToken creds = None \<or> cred_accessToken creds = Some [])"
  by (auto simp: getAuthHeaders_def no_token_error_def split: option.splits if_splits)

lemma request_no_token:
  "getAuthHeaders creds = Inl e \<Longrightarrow> request P creds url options log = (Inl e, log)"
  by (simp add: request_def)

lemma snd_request:
  "snd (request P creds url options log) = log @ planned creds url options"
  by (simp add: request_def planned_def split: sum.splits fetch_result.splits)

lemma request_cases:
  obtains e where "request P creds url options log = (Inl e, log @ planned creds url options)"
  | v where "request P creds url options log = (Inr v, log @ planned creds url options)"
  using snd_request [of P creds url options log]
  by (cases "request P creds url options log"; cases "fst (request P creds url options log)") auto

lemma request_responded:
  assumes "getAuthHeaders creds = Inr auth"
    and "fetch P log (fetch_args auth url options) = Responded r"
  shows "fst (request P creds url options log) =
     (if resp_status r = 429 then
        Inl (RateLimitError (js ''Rate limit exceeded'')
               (case resp_retry_after r of None \<Rightarrow> Some 60
                | Some ra \<Rightarrow> if ra = [] then Some 60 else parseInt10 ra))
      else if resp_status r = 401 then
        Inl (AuthenticationError (js ''Authentication failed. Check your access token.''))
      else if resp_status r = 403 then
        Inl (PermissionDeniedError (js ''Permission denied. Check your IAM permissions.''))
      else if resp_status r = 404 then Inl (NotFoundError (js ''Resource'') url)
      else if \<not> (200 \<le> resp_status r \<and> resp_status r \<le> 299) then
        Inl (GCloudApiError (error_message (resp_json r) (resp_status r)) (resp_status r))
      else if resp_status r = 204 then Inr JUndefined
      else (case resp_json r of None \<Rightarrow> Inl SyntaxError | Some v \<Rightarrow> Inr v))"
  using assms by (simp add: request_def)

lemma planned_length: "length (planned creds url options) \<le> 1"
  by (simp add: planned_def split: sum.splits)

lemma spread_Nil [simp]: "spread a [] = a"
  by (induction a) (auto simp: spread_def)

lemma opt_headers_simps [simp]:
  "opt_headers no_options = None" "opt_headers (with_method m) = None"
  "opt_headers (with_body m b) = None"
  by (simp_all add: no_options_def with_method_def with_body_def)

subsection \<open>Computations that send a fixed list of requests\<close>

lemma sends_request: "sends (\<lambda>P. request P creds url options) (planned creds url options)"
  by (simp add: sends_def snd_request)

lemma sends_return: "sends (\<lambda>P. io_return (x P)) []"
  by (simp add: sends_def io_return_def)

lemma sends_throw: "sends (\<lambda>P. io_throw (e P)) []"
  by (simp add: sends_def io_throw_def)

lemma sends_lift: "sends (\<lambda>P. io_lift (r P)) []"
  by (simp add: sends_def io_lift_def io_return_def io_throw_def split: sum.splits)

lemma sends_prop: "sends (\<lambda>P. io_prop (v P) k) []"
  by (simp add: sends_def io_prop_def io_return_def io_throw_def split: option.splits)

lemma sends_bind_pure:
  assumes "sends m reqs" and "\<And>x. sends (\<lambda>P. f P x) []"
  shows "sends (\<lambda>P. io_bind (m P) (f P)) reqs"
  using assms by (auto simp: sends_def io_bind_def split: prod.splits sum.splits dest: sndI)

lemma sends_catch_pure:
  assumes "sends m reqs" and "\<And>e. sends (\<lambda>P. h P e) []"
  shows "sends (\<lambda>P. io_catch (m P) (h P)) reqs"
  using assms by (auto simp: sends_def io_catch_def split: prod.splits sum.splits dest: sndI)

lemma sends_lift_bind:
  assumes "\<And>x. r = Inr x \<Longrightarrow> sends (\<lambda>P. f P x) (g x)"
  shows "sends (\<lambda>P. io_bind (io_lift r) (f P)) (case r of Inl e \<Rightarrow> [] | Inr x \<Rightarrow> g x)"
  using assms
  by (cases r) (auto simp: sends_def io_bind_def io_lift_def io_return_def io_throw_def)

lemma sends_case_option:
  assumes "v = None \<Longrightarrow> sends a r1" and "\<And>x. v = Some x \<Longrightarrow> sends (\<lambda>P. b P x) (r2 x)"
  shows "sends (\<lambda>P. case v of None \<Rightarrow> a P | Some x \<Rightarrow> b P x)
           (case v of None \<Rightarrow> r1 | Some x \<Rightarrow> r2 x)"
  using assms by (cases v) auto

lemma sends_if:
  assumes "c \<Longrightarrow> sends a r1" and "\<not> c \<Longrightarrow> sends b r2"
  shows "sends (\<lambda>P. if c then a P else b P) (if c then r1 else r2)"
  using assms by auto

lemmas sends_rules = sends_request sends_return sends_throw sends_lift sends_prop
  sends_lift_bind sends_bind_pure sends_catch_pure sends_case_option sends_if

lemma sends_issued: "sends m reqs \<Longrightarrow> issued (m P) log = reqs"
  by (simp add: sends_def issued_def)

subsection \<open>Orderly requests\<close>

lemma orderly_Nil [simp]: "orderly creds []"
  by (simp add: orderly_def)

lemma orderly_planned:
  "known_endpoint url \<Longrightarrow> opt_headers options = None \<Longrightarrow>
     orderly creds (planned creds url options)"
  by (auto simp: orderly_def planned_def authorised_def fetch_args_def
      split: sum.splits dest!: getAuthHeaders_Inr)

lemma known_endpoint_API:
  "b \<in> set endpoints \<Longrightarrow> known_endpoint (b @ 0x2F # rest)"
  unfolding known_endpoint_def by (rule bexI [of _ b]) (simp_all add: js_def)

lemma known_resource_manager:
  "known_endpoint (js ''https://cloudresourcemanager.googleapis.com/v1/projects/'' @ rest)"
  by (simp add: known_endpoint_def endpoints_def js_def)

lemmas known_resource_manager' = known_resource_manager [unfolded js_def, simplified]

lemma client_sends:
  assumes "client_operation n op"
  shows "\<exists>reqs. sends (\<lambda>P. op P creds) reqs \<and> orderly creds reqs"
  using assms
  apply (induction rule: client_operation.induct)
  apply (unfold client_defs Let_def)
  apply (rule exI, rule conjI, (rule sends_rules)+,
         (simp add: orderly_planned known_resource_manager' js_def known_endpoint_API
            endpoints_def split: sum.splits option.splits))+
  done

lemma tool_sends:
  assumes "tool_invocation n h"
  shows "n = ''gcloud_set_project_iam_policy''
         \<or> (\<exists>reqs. sends (\<lambda>P. h P creds) reqs \<and> orderly creds reqs)"
  using assms
  apply (induction rule: tool_invocation.induct)
  apply (unfold tool_defs client_defs Let_def)
  apply ((rule disjI1, rule refl)
         | (rule disjI2, rule exI, rule conjI, (rule sends_rules)+,
            (simp add: orderly_planned known_resource_manager' js_def known_endpoint_API
               endpoints_def split: sum.splits option.splits)))+
  done

text \<open>
  The tool that sets the IAM policy reads the current policy first and writes only after
  the read has succeeded.
\<close>

lemma set_policy_sends:
  "\<exists>rest. snd (gcloud_set_project_iam_policy P creds projectId bindings log) =
            log @ planned creds
                    (js ''https://cloudresourcemanager.googleapis.com/v1/projects/'' @ projectId
                     @ js '':getIamPolicy'')
                    (with_body ''POST'' (JObj []))
                @ rest
          \<and> orderly creds rest
          \<and> (\<forall>q \<in> set rest. req_url q =
                js ''https://cloudresourcemanager.googleapis.com/v1/projects/'' @ projectId
                @ js '':setIamPolicy'')"
proof -
  let ?u1 = "js ''https://cloudresourcemanager.googleapis.com/v1/projects/'' @ projectId
                     @ js '':getIamPolicy''"
  let ?u2 = "js ''https://cloudresourcemanager.googleapis.com/v1/projects/'' @ projectId
                     @ js '':setIamPolicy''"
  have ord: "orderly creds (planned creds ?u2 (with_body ''POST'' b))" for b
    by (rule orderly_planned) (simp_all add: known_resource_manager)
  have url: "\<forall>q \<in> set (planned creds ?u2 (with_body ''POST'' b)). req_url q = ?u2" for b
    by (auto simp: planned_def fetch_args_def split: sum.splits)
  show ?thesis
  proof (cases rule: request_cases [of P creds ?u1 "with_body ''POST'' (JObj [])" log])
    case (1 e)
    then show ?thesis
      by (simp add: gcloud_set_project_iam_policy_def getProjectIamPolicy_def io_catch_def
          io_bind_def io_return_def)
  next
    case (2 v)
    show ?thesis
    proof (cases "get_prop v (js ''version'')")
      case None
      with 2 show ?thesis
        by (simp add: gcloud_set_project_iam_policy_def getProjectIamPolicy_def io_catch_def
            io_bind_def io_return_def io_prop_def io_throw_def)
    next
      case (Some ver)
      then obtain et where et: "get_prop v (js ''etag'') = Some et"
        by (auto simp: get_prop_def split: if_splits)
      let ?b = "JObj [(js ''policy'',
                  JObj [(js ''version'', ver), (js ''bindings'', bindings_json bindings),
                        (js ''etag'', et)])]"
      show ?thesis
        using 2 Some et ord [of ?b] url [of ?b]
        by (cases rule: request_cases [of P creds ?u2 "with_body ''POST'' ?b"
              "log @ planned creds ?u1 (with_body ''POST'' (JObj []))"])
          (simp_all add: gcloud_set_project_iam_policy_def getProjectIamPolicy_def
            setProjectIamPolicy_def io_catch_def
            io_bind_def io_return_def io_prop_def io_throw_def io_lift_def formatResponse_def)
    qed
  qed
qed

inductive_cases set_policy_invocation:
  "tool_invocation ''gcloud_set_project_iam_policy'' h"


lemma planned_Nil_iff: "planned creds url options = [] \<longleftrightarrow> getAuthHeaders creds = Inl no_token_error"
  by (auto simp: planned_def split: sum.splits dest: getAuthHeaders_Inl)

subsection \<open>Outcomes of composed computations\<close>

lemma fst_return [simp]: "fst (io_return x log) = Inr x"
  and snd_return [simp]: "snd (io_return x log) = log"
  and fst_throw [simp]: "fst (io_throw e log) = Inl e"
  and snd_throw [simp]: "snd (io_throw e log) = log"
  by (simp_all add: io_return_def io_throw_def)

lemma fst_lift [simp]: "fst (io_lift r log) = r"
  and snd_lift [simp]: "snd (io_lift r log) = log"
  by (cases r; simp add: io_lift_def)+

lemma fst_prop [simp]:
  "fst (io_prop v k log) = (case get_prop v k of None \<Rightarrow> Inl TypeError | Some x \<Rightarrow> Inr x)"
  and snd_prop [simp]: "snd (io_prop v k log) = log"
  by (simp_all add: io_prop_def split: option.splits)







lemma formatResponse_Json [simp]: "formatResponse data Json rt = Inr (json_envelope data)"
  by (simp add: formatResponse_def json_envelope_def)


subsection \<open>Tools relay the error of their request\<close>


lemma relays_quiet: "sends m [] \<Longrightarrow> relays creds m"
  by (simp add: relays_def issued_def sends_def)









subsection \<open>Facts about the concrete inputs\<close>

lemma sample_auth:
  "getAuthHeaders sample_credentials
     = Inr [(js ''Authorization'', js ''Bearer '' @ js ''ya29.sample''),
            (js ''Content-Type'', js ''application/json'')]"
  by (simp add: getAuthHeaders_def sample_credentials_def js_def)

lemma fetch_answering: "fetch (answering r) log q = Responded r"
  by (simp add: answering_def)

text \<open>
  C1 (amended). When a response is received, the client maps its status to exactly one
  outcome: 429 raises the rate-limit error, 401 the authentication error, 403 the
  permission-denied error, 404 the not-found error, and every other status outside 200-299
  the generic API error carrying that status. A status within 200-299 raises none of these
  errors: 204 yields no value and any other such status yields the body read as JSON, which
  fails only when the body is not JSON.
\<close>

theorem request_status_mapping:
  assumes "getAuthHeaders creds = Inr auth"
    and "fetch P log (fetch_args auth url options) = Responded r"
  shows "(resp_status r = 429 \<longrightarrow>
            (\<exists>n. fst (request P creds url options log)
                   = Inl (RateLimitError (js ''Rate limit exceeded'') n)))
       \<and> (resp_status r = 401 \<longrightarrow>
            fst (request P creds url options log)
              = Inl (AuthenticationError (js ''Authentication failed. Check your access token.'')))
       \<and> (resp_status r = 403 \<longrightarrow>
            fst (request P creds url options log)
              = Inl (PermissionDeniedError (js ''Permission denied. Check your IAM permissions.'')))
       \<and> (resp_status r = 404 \<longrightarrow>
            fst (request P creds url options log) = Inl (NotFoundError (js ''Resource'') url))
       \<and> (resp_status r \<notin> {429, 401, 403, 404}
            \<and> \<not> (200 \<le> resp_status r \<and> resp_status r \<le> 299) \<longrightarrow>
            (\<exists>m. fst (request P creds url options log) = Inl (GCloudApiError m (resp_status r))))
       \<and> (200 \<le> resp_status r \<and> resp_status r \<le> 299 \<longrightarrow>
            fst (request P creds url options log)
              = (if resp_status r = 204 then Inr JUndefined
                 else case resp_json r of None \<Rightarrow> Inl SyntaxError | Some v \<Rightarrow> Inr v))"
  unfolding request_responded [OF assms] by simp

theorem request_status_mapping_witness:
  "fst (request (answering (json_response 429 JNull)) sample_credentials (js ''u'') no_options [])
     = Inl (RateLimitError (js ''Rate limit exceeded'') (Some 60))
   \<and> fst (request (answering (json_response 401 JNull)) sample_credentials (js ''u'') no_options [])
     = Inl (AuthenticationError (js ''Authentication failed. Check your access token.''))
   \<and> fst (request (answering (json_response 403 JNull)) sample_credentials (js ''u'') no_options [])
     = Inl (PermissionDeniedError (js ''Permission denied. Check your IAM permissions.''))
   \<and> fst (request (answering (json_response 404 JNull)) sample_credentials (js ''u'') no_options [])
     = Inl (NotFoundError (js ''Resource'') (js ''u''))
   \<and> fst (request (answering (json_response 500 JNull)) sample_credentials (js ''u'') no_options [])
     = Inl (GCloudApiError (JStr (js ''API error: 500'')) 500)
   \<and> fst (request (answering (json_response 200 (JObj []))) sample_credentials (js ''u'')
            no_options [])
     = Inr (JObj [])
   \<and> fst (request (answering (json_response 204 JNull)) sample_credentials (js ''u'') no_options [])
     = Inr JUndefined"
proof -
  note m = request_status_mapping [OF sample_auth fetch_answering, where url = "js ''u''"
      and options = no_options and log = "[]"]
  have e500: "error_message (Some JNull) 500 = JStr (js ''API error: 500'')"
    by (simp add: error_message_def get_prop_def js_def) code_simp
  have "fst (request (answering (json_response 429 JNull)) sample_credentials (js ''u'')
               no_options [])
          = Inl (RateLimitError (js ''Rate limit exceeded'') (Some 60))"
    using m [of "json_response 429 JNull"]
    by (simp add: request_responded [OF sample_auth fetch_answering] json_response_def)
  moreover have "fst (request (answering (json_response 500 JNull)) sample_credentials (js ''u'')
               no_options [])
          = Inl (GCloudApiError (JStr (js ''API error: 500'')) 500)"
    using m [of "json_response 500 JNull"] e500
    by (simp add: request_responded [OF sample_auth fetch_answering] json_response_def)
  moreover note m [of "json_response 401 JNull"] m [of "json_response 403 JNull"]
    m [of "json_response 404 JNull"] m [of "json_response 200 (JObj [])"]
    m [of "json_response 204 JNull"]
  ultimately show ?thesis
    by (simp add: json_response_def)
qed

theorem request_2xx_unparsable_body_throws:
  "fst (request (answering \<lparr>resp_status = 200, resp_retry_after = None, resp_json = None\<rparr>)
          sample_credentials (js ''https://storage.googleapis.com/storage/v1/b/photos'')
          no_options [])
   = Inl SyntaxError"
  by (simp add: request_responded [OF sample_auth fetch_answering])










lemma planned_token:
  "cred_accessToken creds = Some token \<Longrightarrow> token \<noteq> [] \<Longrightarrow>
     \<exists>q. planned creds url options = [q]"
  by (simp add: planned_def getAuthHeaders_def)





lemma encodeURIComponent_Inl: "encodeURIComponent s = Inl e \<Longrightarrow> e = URIError"
  by (auto simp: encodeURIComponent_def split: option.splits)

lemma btoa_Inl: "btoa s = Inl e \<Longrightarrow> e = InvalidCharacterError"
  by (auto simp: btoa_def split: if_splits)

lemma fst_bind_lift:
  "fst (io_bind (io_lift r) f log) = (case r of Inl e \<Rightarrow> Inl e | Inr x \<Rightarrow> fst (f x log))"
  by (cases r) (simp_all add: io_bind_def io_lift_def io_throw_def io_return_def)

lemma fst_bind_throws:
  "fst (m log) = Inl e \<Longrightarrow> fst (io_bind m f log) = Inl e"
  by (cases "m log") (auto simp: io_bind_def)

lemma fst_request_no_token:
  "getAuthHeaders creds = Inl e \<Longrightarrow> fst (request P creds url options log) = Inl e"
  by (simp add: request_no_token)

text \<open>Without an access token an operation fails before it reaches the network.\<close>

lemma client_no_token:
  assumes "client_operation n op" and "getAuthHeaders creds = Inl e"
  shows "n = ''testConnection''
         \<or> fst (op P creds log) \<in> {Inl e, Inl InvalidCharacterError, Inl URIError}"
  using assms
  apply (induction rule: client_operation.induct)
  apply (unfold client_defs Let_def)
  apply ((rule disjI1, rule refl)
         | (rule disjI2,
            (auto simp: fst_bind_lift fst_bind_throws fst_request_no_token
               split: sum.splits option.splits
               dest: encodeURIComponent_Inl btoa_Inl)[1]))+
  done

text \<open>
  C5 (amended). Every outbound request of every client operation carries the tenant's
  access token in the header \<open>Authorization: Bearer {accessToken}\<close>. With credentials
  whose access token is absent or empty no operation issues a request, and every operation
  other than \<open>testConnection\<close> fails: with the authentication error, or, when it encodes
  an argument before it builds the request, with the error of that encoding.
\<close>

theorem bearer_token_or_no_request:
  assumes "client_operation n op"
  shows "(\<forall>q \<in> set (issued (op P creds) log). authorised creds q)
         \<and> (cred_accessToken creds = None \<or> cred_accessToken creds = Some []
              \<longrightarrow> issued (op P creds) log = []
                \<and> (n \<noteq> ''testConnection''
                     \<longrightarrow> fst (op P creds log)
                           \<in> {Inl no_token_error, Inl InvalidCharacterError, Inl URIError}))"
proof -
  obtain reqs where reqs: "sends (\<lambda>P. op P creds) reqs" "orderly creds reqs"
    using client_sends [OF assms] by blast
  have iss: "issued (op P creds) log = reqs"
    using sends_issued [OF reqs(1), of P log] by simp
  have none: "getAuthHeaders creds = Inl no_token_error"
    if "cred_accessToken creds = None \<or> cred_accessToken creds = Some []"
    using that by (auto simp: getAuthHeaders_def no_token_error_def)
  show ?thesis
    using reqs(2) iss none client_no_token [OF assms, of creds no_token_error P log]
    by (auto simp: orderly_def)
qed

theorem bearer_token_or_no_request_witness:
  "client_operation ''getBucket'' (\<lambda>P creds. getBucket P creds (js ''photos''))
   \<and> issued (getBucket (answering (json_response 200 (JObj []))) no_credentials (js ''photos'')) [] = []
   \<and> fst (getBucket (answering (json_response 200 (JObj []))) no_credentials (js ''photos'') [])
       = Inl no_token_error
   \<and> list_all (authorised sample_credentials)
        (issued (getBucket (answering (json_response 200 (JObj []))) sample_credentials
                   (js ''photos'')) [])
   \<and> issued (getBucket (answering (json_response 200 (JObj []))) sample_credentials
                   (js ''photos'')) [] \<noteq> []"
proof -
  let ?P = "answering (json_response 200 (JObj []))"
  have cop: "client_operation ''getBucket'' (\<lambda>P creds. getBucket P creds (js ''photos''))"
    by (rule op_getBucket)
  note a = bearer_token_or_no_request [OF cop, of ?P no_credentials "[]"]
  note b = bearer_token_or_no_request [OF cop, of ?P sample_credentials "[]"]
  have "cred_accessToken no_credentials = None"
    by (simp add: no_credentials_def)
  with a have "issued (getBucket ?P no_credentials (js ''photos'')) [] = []"
    and "fst (getBucket ?P no_credentials (js ''photos'') [])
           \<in> {Inl no_token_error, Inl InvalidCharacterError, Inl URIError}"
    by simp_all
  moreover have "fst (getBucket ?P no_credentials (js ''photos'') []) \<noteq> Inl InvalidCharacterError"
    "fst (getBucket ?P no_credentials (js ''photos'') []) \<noteq> Inl URIError"
    by (simp_all add: getBucket_def request_def getAuthHeaders_def no_credentials_def)
  moreover from b have "list_all (authorised sample_credentials)
        (issued (getBucket ?P sample_credentials (js ''photos'')) [])"
    unfolding list_all_iff by blast
  moreover have "issued (getBucket ?P sample_credentials (js ''photos'')) [] \<noteq> []"
    by (simp add: getBucket_def issued_def snd_request planned_def getAuthHeaders_def
        sample_credentials_def js_def)
  ultimately show ?thesis using cop by blast
qed

theorem testConnection_without_token_reports_project:
  "fst (testConnection (answering (json_response 200 (JObj []))) no_credentials [])
     = Inr (JObj [(js ''connected'', JBool False),
                  (js ''message'',
                   JStr (js ''No project ID provided. Set X-GCloud-Project-ID header.''))])
   \<and> \<not> isl (fst (testConnection (answering (json_response 200 (JObj [])))
                     \<lparr>cred_accessToken = None, cred_projectId = Some (js ''demo'')\<rparr> []))"
  by (simp add: testConnection_def no_credentials_def io_catch_def io_return_def io_bind_def
      request_def getAuthHeaders_def js_def)

subsection \<open>The envelope of a tool\<close>





lemma serialize_None_iff: "serialize gap ind v = None \<longleftrightarrow> v = JUndefined"
  by (cases v) (simp_all add: Let_def)

lemma JSON_stringify_drops_undefined:
  "JSON_stringify (JObj (kvs @ [(k, JUndefined)])) n = JSON_stringify (JObj kvs) n"
  by (simp add: JSON_stringify_def Let_def)








text \<open>
  C8 (amended). The requests that a tool handler issues are determined by its arguments
  and the tenant credentials alone: for every tool other than
  \<open>gcloud_set_project_iam_policy\<close> they are the same on every platform and after every
  list of earlier requests. For \<open>gcloud_set_project_iam_policy\<close> this holds of the first
  request; its second request also carries the version and the etag that the provider
  returned to the first request of the same invocation.
\<close>

theorem tool_requests_deterministic:
  assumes "tool_invocation n h"
  shows "(n \<noteq> ''gcloud_set_project_iam_policy''
            \<longrightarrow> issued (h P creds) log = issued (h P' creds) log')
         \<and> take 1 (issued (h P creds) log) = take 1 (issued (h P' creds) log')"
proof (cases "n = ''gcloud_set_project_iam_policy''")
  case True
  with assms obtain projectId bindings
    where h: "h = (\<lambda>P creds. gcloud_set_project_iam_policy P creds projectId bindings)"
    by (auto elim: set_policy_invocation)
  let ?first = "planned creds
      (js ''https://cloudresourcemanager.googleapis.com/v1/projects/'' @ projectId
       @ js '':getIamPolicy'') (with_body ''POST'' (JObj []))"
  have *: "take 1 (issued (h Q creds) l) = ?first" for Q l
  proof -
    obtain rest where rest: "snd (h Q creds l) = l @ ?first @ rest" "orderly creds rest"
      using set_policy_sends [of Q creds projectId bindings l] h by blast
    show ?thesis
    proof (cases "?first")
      case Nil
      then have "rest = []"
        using rest(2) by (simp add: planned_Nil_iff orderly_def)
      with Nil rest(1) show ?thesis by (simp add: issued_def)
    next
      case (Cons q qs)
      have "length ?first \<le> 1" by (rule planned_length)
      with Cons have "qs = []" by simp
      with Cons rest(1) show ?thesis by (simp add: issued_def)
    qed
  qed
  from True * [of P log] * [of P' log'] show ?thesis by simp
next
  case False
  with tool_sends [OF assms, of creds] obtain reqs
    where "sends (\<lambda>P. h P creds) reqs" by blast
  then have "issued (h P creds) log = reqs" "issued (h P' creds) log' = reqs"
    by (simp_all add: sends_def issued_def)
  then show ?thesis by simp
qed

theorem tool_requests_deterministic_witness:
  "tool_invocation ''gcloud_get_bucket'' (\<lambda>P creds. gcloud_get_bucket P creds (js ''photos''))
   \<and> issued (gcloud_get_bucket (answering (json_response 200 (JObj []))) sample_credentials
               (js ''photos'')) []
     = issued (gcloud_get_bucket (answering (json_response 503 JNull)) sample_credentials
                 (js ''photos''))
         [\<lparr>req_url = js ''https://example.org/'', req_method = None, req_body = None,
           req_headers = []\<rparr>]"
  using tool_requests_deterministic [OF t_get_bucket [of "js ''photos''"],
      where P = "answering (json_response 200 (JObj []))" and creds = sample_credentials
        and log = "[]" and P' = "answering (json_response 503 JNull)"
        and log' = "[\<lparr>req_url = js ''https://example.org/'', req_method = None,
                      req_body = None, req_headers = []\<rparr>]"]
  by (intro conjI t_get_bucket) simp

theorem set_iam_policy_request_depends_on_response:
  "issued (gcloud_set_project_iam_policy
             (answering (json_response 200
                (JObj [(js ''version'', JNum 1), (js ''etag'', JStr (js ''BwA''))])))
             sample_credentials (js ''demo'')
             [(js ''roles/viewer'', [js ''user:a@example.com''])]) []
   \<noteq> issued (gcloud_set_project_iam_policy
               (answering (json_response 200
                  (JObj [(js ''version'', JNum 1), (js ''etag'', JStr (js ''BwB''))])))
               sample_credentials (js ''demo'')
               [(js ''roles/viewer'', [js ''user:a@example.com''])]) []"
  by code_simp

subsection \<open>Base64\<close>



























subsection \<open>Markdown tables\<close>








end
